theory Spec2Isabelle
  imports Complex_Main "HOL-Library.Sublist" "HOL-Library.AList"
begin

section \<open>Python strings\<close>

text \<open>
  Strings are lists of characters.  The model covers ASCII text: a character
  above code 127 is neither a letter, a digit nor white space, and is left
  alone by \<open>lower\<close>.
\<close>

definition is_upper :: "char \<Rightarrow> bool" where
  "is_upper c = (65 \<le> (of_char c :: nat) \<and> (of_char c :: nat) \<le> 90)"

definition is_lower :: "char \<Rightarrow> bool" where
  "is_lower c = (97 \<le> (of_char c :: nat) \<and> (of_char c :: nat) \<le> 122)"

definition is_digit :: "char \<Rightarrow> bool" where
  "is_digit c = (48 \<le> (of_char c :: nat) \<and> (of_char c :: nat) \<le> 57)"

definition is_alpha :: "char \<Rightarrow> bool" where
  "is_alpha c = (is_upper c \<or> is_lower c)"

text \<open>White space as \<open>str.split()\<close> and \<open>str.strip()\<close> see it: tab, line feed,
  vertical tab, form feed, carriage return, the four separators 28 to 31, and space.\<close>

definition is_space :: "char \<Rightarrow> bool" where
  "is_space c = (let n = (of_char c :: nat) in (9 \<le> n \<and> n \<le> 13) \<or> (28 \<le> n \<and> n \<le> 32))"

definition lower_char :: "char \<Rightarrow> char" where
  "lower_char c = (if is_upper c then char_of ((of_char c :: nat) + 32) else c)"

definition upper_char :: "char \<Rightarrow> char" where
  "upper_char c = (if is_lower c then char_of ((of_char c :: nat) - 32) else c)"

definition lower :: "string \<Rightarrow> string" where
  "lower s = map lower_char s"

text \<open>\<open>s.isalpha()\<close> and \<open>s.isalnum()\<close>: at least one character, and all of them of the kind.\<close>

definition isalpha :: "string \<Rightarrow> bool" where
  "isalpha s = (s \<noteq> [] \<and> list_all is_alpha s)"

definition isalnum :: "string \<Rightarrow> bool" where
  "isalnum s = (s \<noteq> [] \<and> list_all (\<lambda>c. is_alpha c \<or> is_digit c) s)"

definition lstrip :: "string \<Rightarrow> string" where
  "lstrip s = dropWhile is_space s"

definition rstrip :: "string \<Rightarrow> string" where
  "rstrip s = rev (dropWhile is_space (rev s))"

definition strip :: "string \<Rightarrow> string" where
  "strip s = rstrip (lstrip s)"

text \<open>\<open>s.lstrip(c)\<close> and \<open>s.rstrip(c)\<close> for a one-character argument.\<close>

definition lstrip_char :: "char \<Rightarrow> string \<Rightarrow> string" where
  "lstrip_char c s = dropWhile (\<lambda>x. x = c) s"

definition rstrip_char :: "char \<Rightarrow> string \<Rightarrow> string" where
  "rstrip_char c s = rev (dropWhile (\<lambda>x. x = c) (rev s))"

text \<open>\<open>s.split(c)\<close> for a one-character separator: never empty, one piece more
  than there are separators.\<close>

fun split_on :: "char \<Rightarrow> string \<Rightarrow> string list" where
  "split_on c [] = [[]]"
| "split_on c (x # xs) =
     (if x = c then [] # split_on c xs
      else (case split_on c xs of [] \<Rightarrow> [[x]] | w # ws \<Rightarrow> (x # w) # ws))"

text \<open>\<open>s.split()\<close>: the maximal runs of characters that are not white space.\<close>

fun split_ws_acc :: "string \<Rightarrow> string \<Rightarrow> string list" where
  "split_ws_acc cur [] = (if cur = [] then [] else [rev cur])"
| "split_ws_acc cur (x # xs) =
     (if is_space x then (if cur = [] then split_ws_acc [] xs else rev cur # split_ws_acc [] xs)
      else split_ws_acc (x # cur) xs)"

definition split_ws :: "string \<Rightarrow> string list" where
  "split_ws s = split_ws_acc [] s"

text \<open>\<open>s.replace(old, new)\<close> for a non-empty \<open>old\<close>: occurrences are replaced from
  the left, without overlap.\<close>

function replace :: "string \<Rightarrow> string \<Rightarrow> string \<Rightarrow> string" where
  "replace old new [] = []"
| "replace old new (x # xs) =
     (if old \<noteq> [] \<and> prefix old (x # xs) then new @ replace old new (drop (length old) (x # xs))
      else x # replace old new xs)"
  by pat_completeness auto
termination
  by (relation "measure (\<lambda>(old, new, s). length s)") (auto simp: Suc_le_eq)

text \<open>\<open>sub in s\<close> is \<^const>\<open>sublist\<close>; \<open>s.startswith(p)\<close> is \<^const>\<open>prefix\<close>.\<close>

text \<open>\<open>dict.fromkeys(xs)\<close> turned back into a list: the first occurrence of every
  element, in order.\<close>

fun fromkeys :: "'a list \<Rightarrow> 'a list" where
  "fromkeys [] = []"
| "fromkeys (x # xs) = x # fromkeys (filter (\<lambda>y. y \<noteq> x) xs)"


section \<open>Numbers\<close>

text \<open>
  Python's floats are modelled as real numbers, so the arithmetic below is exact.
  \<open>round(x, n)\<close> rounds to \<open>n\<close> decimal places, a tie going to the even neighbour.
\<close>

definition round_half_even :: "real \<Rightarrow> int" where
  "round_half_even y =
     (let f = \<lfloor>y\<rfloor>; d = y - of_int f
      in if d < 1/2 then f else if 1/2 < d then f + 1 else if even f then f else f + 1)"

definition py_round :: "real \<Rightarrow> nat \<Rightarrow> real" where
  "py_round x n = of_int (round_half_even (x * 10 ^ n)) / 10 ^ n"

text \<open>\<open>statistics.mean\<close> and \<open>statistics.stdev\<close> (the sample standard deviation, with
  \<open>n - 1\<close> in the denominator).  The source calls them on non-empty lists, respectively
  on lists of at least two numbers, only.\<close>

definition mean :: "real list \<Rightarrow> real" where
  "mean xs = sum_list xs / real (length xs)"

definition stdev :: "real list \<Rightarrow> real" where
  "stdev xs = sqrt (sum_list (map (\<lambda>x. (x - mean xs)\<^sup>2) xs) / real (length xs - 1))"

text \<open>The square root cannot be computed; without its code equation, evaluation by
  simplification leaves a square root as it stands.\<close>

declare sqrt_def [code del]

section \<open>workflow\_logic.py: posts, metrics and scores\<close>

text \<open>
  An analysed post, as \<open>analyze_instagram_posts\<close> builds it.  The \<open>timestamp\<close> field
  holds what \<open>safe_parse_timestamp(...).timestamp()\<close> makes of the stored text: the
  Unix time in seconds, or \<open>None\<close> when the text is absent or is no ISO date.
\<close>

record top_comment =
  tc_text :: string
  tc_likes :: int

record post =
  p_username :: string
  ownerUsername :: string
  postId :: string
  postType :: string
  postUrl :: string
  timestamp :: "real option"
  topic :: string
  likesCount :: int
  commentsCount :: int
  videoViewCount :: int
  videoPlayCount :: int
  topComment :: top_comment
  isAd :: bool
  mentions :: "string list"
  hashtags :: "string list"

text \<open>The dictionary that \<open>aggregate_post_metrics\<close> returns.  The function returns
  either this dictionary with every key present or the empty dictionary, which is
  \<open>None\<close> of type \<open>metrics option\<close> below.\<close>

record metrics =
  m_username :: string
  postsAnalyzed :: nat
  avgEngagement_all :: real
  avgEngagement_organic :: real
  avgEngagement_sponsored :: real
  avgLikes :: real
  avgComments :: real
  avgViews :: real
  stdevEngagement :: real
  consistencyScore :: real
  organicPct :: real
  postingAvgDays :: "real option"
  commentShare :: real
  commentsPer10kViews :: real
  adDisclosurePct :: real
  hashtagCounts :: "(string \<times> nat) list"

record scores =
  s_username :: string
  s_postsAnalyzed :: nat
  avgER_organic :: real
  avgER_sponsored :: real
  s_avgLikes :: real
  avg_sponsored_likes :: real
  s_avgComments :: real
  avg_sponsored_comments :: real
  s_avgViews :: real
  Authenticity :: real
  BrandSafety :: real
  AudienceMatch :: real
  ContentQuality :: real

text \<open>The per-post dictionary of the first loop of \<open>aggregate_post_metrics\<close>.\<close>

record analyzed =
  a_likes :: int
  a_comments :: int
  a_views :: int
  a_er :: real
  a_isAd :: bool
  a_hashtags :: "string list"
  a_mentions :: "string list"
  a_ts :: "real option"

definition views_of :: "post \<Rightarrow> int" where
  "views_of p = max (videoViewCount p) (videoPlayCount p)"

definition engagement_rate :: "post \<Rightarrow> real" where
  "engagement_rate p =
     (let likes = likesCount p; comments = commentsCount p; views = views_of p
      in if views > 0 then real_of_int (likes + comments) / real_of_int views
         else real_of_int (likes + comments) / real_of_int (max likes 1))"

definition analyze_one :: "post \<Rightarrow> analyzed" where
  "analyze_one p =
     \<lparr> a_likes = likesCount p, a_comments = commentsCount p, a_views = views_of p,
       a_er = engagement_rate p, a_isAd = isAd p, a_hashtags = hashtags p,
       a_mentions = mentions p, a_ts = timestamp p \<rparr>"

text \<open>\<open>counts[h] = counts.get(h, 0) + 1\<close> on an insertion-ordered dictionary.\<close>

definition bump :: "string \<Rightarrow> (string \<times> nat) list \<Rightarrow> (string \<times> nat) list" where
  "bump h counts = AList.update h (case map_of counts h of None \<Rightarrow> 1 | Some n \<Rightarrow> n + 1) counts"

definition count_all :: "string list \<Rightarrow> (string \<times> nat) list \<Rightarrow> (string \<times> nat) list" where
  "count_all hs counts = foldl (\<lambda>acc h. bump h acc) counts hs"

text \<open>The positive engagement rates: \<open>[p['er'] for p in analyzed_posts if p['er'] > 0]\<close>.\<close>

definition positive_ers :: "analyzed list \<Rightarrow> real list" where
  "positive_ers aps = map a_er (filter (\<lambda>a. a_er a > 0) aps)"

definition clamp :: "real \<Rightarrow> real \<Rightarrow> real \<Rightarrow> real" where
  "clamp lo hi x = max lo (min hi x)"

text \<open>The timestamps that are present and not zero, sorted, and the gaps between
  neighbours in days.\<close>

definition sorted_timestamps :: "analyzed list \<Rightarrow> real list" where
  "sorted_timestamps aps =
     sort (concat (map (\<lambda>a. case a_ts a of None \<Rightarrow> [] | Some t \<Rightarrow> (if t = 0 then [] else [t])) aps))"

definition day_gaps :: "real list \<Rightarrow> real list" where
  "day_gaps ts = map (\<lambda>(a, b). (b - a) / (24 * 3600)) (zip ts (tl ts))"

text \<open>\<open>aggregate_post_metrics\<close>.  On posts of the types above none of its statements
  raises, so the \<open>except\<close> branch, which returns the empty dictionary, is not reached.\<close>

definition aggregate_post_metrics :: "post list \<Rightarrow> metrics option" where
  "aggregate_post_metrics posts =
     (if posts = [] then None
      else
        let analyzed_posts = map analyze_one posts;
            ers = positive_ers analyzed_posts;
            ers_org = positive_ers (filter (\<lambda>a. \<not> a_isAd a) analyzed_posts);
            ers_spon = positive_ers (filter a_isAd analyzed_posts);
            stdev_er = (if length ers > 1 then stdev ers else 0);
            consistency_score = max 0 (min 85 (100 - stdev_er * 10));
            timestamps = sorted_timestamps analyzed_posts;
            avg_days_between = (if length timestamps > 1 then Some (mean (day_gaps timestamps)) else None);
            total_likes = sum_list (map a_likes analyzed_posts);
            total_comments = sum_list (map a_comments analyzed_posts);
            total_views = sum_list (map a_views analyzed_posts);
            hashtag_counts = foldl (\<lambda>acc a. count_all (a_hashtags a) acc) [] analyzed_posts
        in Some
          \<lparr> m_username = p_username (hd posts),
            postsAnalyzed = length posts,
            avgEngagement_all = (if ers \<noteq> [] then mean ers else 0),
            avgEngagement_organic = (if ers_org \<noteq> [] then mean ers_org else 0),
            avgEngagement_sponsored = (if ers_spon \<noteq> [] then mean ers_spon else 0),
            avgLikes = mean (map (\<lambda>a. real_of_int (a_likes a)) analyzed_posts),
            avgComments = mean (map (\<lambda>a. real_of_int (a_comments a)) analyzed_posts),
            avgViews = mean (map (\<lambda>a. real_of_int (a_views a)) analyzed_posts),
            stdevEngagement = stdev_er,
            consistencyScore = consistency_score,
            organicPct = real (length ers_org) / real (length posts) * 100,
            postingAvgDays = avg_days_between,
            commentShare =
              (if total_likes + total_comments > 0
               then real_of_int total_comments / real_of_int (total_likes + total_comments) else 0),
            commentsPer10kViews =
              (if total_views > 0 then real_of_int total_comments / real_of_int total_views * 10000 else 0),
            adDisclosurePct = 100,
            hashtagCounts = hashtag_counts \<rparr>)"

text \<open>\<open>metrics.get(key, default)\<close> on a dictionary that is complete or empty.\<close>

definition mget :: "metrics option \<Rightarrow> (metrics \<Rightarrow> 'a) \<Rightarrow> 'a \<Rightarrow> 'a" where
  "mget m field dflt = (case m of None \<Rightarrow> dflt | Some r \<Rightarrow> field r)"

text \<open>\<open>calculate_scores_manually\<close>.  On numeric metrics its \<open>try\<close> block does not raise,
  so the fixed scores of the \<open>except\<close> branch are not reached.\<close>

definition calculate_scores_manually :: "metrics option \<Rightarrow> string \<Rightarrow> scores" where
  "calculate_scores_manually m username =
     (let consistency_score = mget m consistencyScore 75;
          comment_share = mget m commentShare 0;
          comments_per_10k_views = mget m commentsPer10kViews 0;
          hashtag_counts = mget m hashtagCounts [];
          authenticity = max 0 (min 100 consistency_score);
          brand_safety = 85;
          audience_match = (if hashtag_counts \<noteq> [] then 75 else 70);
          content_quality =
            max 0 (min 100 (60 + comment_share * 30 + min 20 (comments_per_10k_views / 5)))
      in \<lparr> s_username = username,
           s_postsAnalyzed = mget m postsAnalyzed 0,
           avgER_organic = py_round (mget m avgEngagement_organic 0) 6,
           avgER_sponsored = py_round (mget m avgEngagement_sponsored 0) 6,
           s_avgLikes = py_round (mget m avgLikes 0) 0,
           avg_sponsored_likes = 0,
           s_avgComments = py_round (mget m avgComments 0) 0,
           avg_sponsored_comments = 0,
           s_avgViews = py_round (mget m avgViews 0) 0,
           Authenticity = py_round authenticity 1,
           BrandSafety = py_round brand_safety 1,
           AudienceMatch = py_round audience_match 1,
           ContentQuality = py_round content_quality 1 \<rparr>)"

section \<open>database.py: the profile store\<close>

datatype py_error = AttributeError | TypeError | IndexError | AssertionError | ValueError

text \<open>
  Points in time are naive local datetimes, counted in microseconds; \<open>timedelta_days n\<close>
  is \<open>timedelta(days=n)\<close>.  A stored \<open>last_scraped\<close> is a text: \<open>Iso t\<close> is the ISO text
  that \<open>datetime.isoformat()\<close> writes for the time \<open>t\<close> and \<open>datetime.fromisoformat\<close> reads
  back; \<open>Text s\<close> is any other text (also the text of an offset-aware datetime, which
  cannot be subtracted from \<open>datetime.now()\<close>), on which \<open>check_profile_exists\<close> ends in
  its \<open>except\<close> branch.
\<close>

datatype stamp = Iso int | Text string

definition timedelta_days :: "int \<Rightarrow> int" where
  "timedelta_days n = n * 24 * 3600 * 1000000"

definition timedelta_seconds :: "int \<Rightarrow> int" where
  "timedelta_seconds n = n * 1000000"

record basic_info =
  bi_username :: string
  bi_name :: string
  bi_full_name :: string
  bi_instagram_url :: string
  bi_bio :: string
  bi_website :: string
  bi_profile_pic_url :: string
  bi_is_verified :: bool
  bi_is_business_account :: bool
  bi_category :: string
  bi_followers_count :: int
  bi_following_count :: int
  bi_posts_count :: int

record posts_section =
  total_posts :: nat
  organic_posts :: "post list"
  sponsored_posts :: "post list"
  all_posts :: "post list"

record analysis =
  an_metrics :: "metrics option"
  an_scores :: "scores option"
  an_engagement_rate :: real
  avg_likes :: real
  avg_comments :: real
  avg_views :: real

record brand_collaborations =
  total_sponsored_posts :: nat
  brands_worked_with :: "string set"
  bc_sponsored_posts :: "post list"

record hashtags_section =
  most_used :: "(string \<times> nat) list"
  total_unique :: nat

record mentions_section =
  most_mentioned :: "(string \<times> nat) list"
  total_mentions :: nat

record profile_metadata =
  last_scraped :: stamp
  scraping_source :: string
  analysis_version :: string
  md_original_query :: string

record profile =
  pr_basic_info :: basic_info
  pr_posts :: posts_section
  pr_analysis :: analysis
  pr_brand_collaborations :: brand_collaborations
  pr_hashtags :: hashtags_section
  pr_mentions :: mentions_section
  pr_metadata :: profile_metadata

record db_metadata =
  last_updated :: int
  total_profiles :: "nat option"

text \<open>The \<open>profiles\<close> dictionary keeps its insertion order; its keys are distinct, and
  every stored profile is a dictionary that is not empty.\<close>

record database =
  profiles :: "(string \<times> profile) list"
  db_metadata :: db_metadata

text \<open>The file on disk: \<open>None\<close> when it is absent or unreadable.\<close>

type_synonym store = "database option"

definition get_database :: "store \<Rightarrow> int \<Rightarrow> database" where
  "get_database st now =
     (case st of
        None \<Rightarrow> \<lparr> profiles = [], db_metadata = \<lparr> last_updated = now, total_profiles = None \<rparr> \<rparr>
      | Some db \<Rightarrow> db)"

text \<open>\<open>save_database\<close>: \<open>ok\<close> tells whether the file could be written; the result is the
  returned flag and the file afterwards.\<close>

definition save_database :: "store \<Rightarrow> bool \<Rightarrow> int \<Rightarrow> database \<Rightarrow> bool \<times> store" where
  "save_database st ok now data =
     (if ok then (True, Some (data\<lparr> db_metadata := (db_metadata data)\<lparr> last_updated := now \<rparr> \<rparr>))
      else (False, st))"

definition check_profile_exists :: "store \<Rightarrow> int \<Rightarrow> string \<Rightarrow> bool \<times> profile option" where
  "check_profile_exists st now username =
     (let db = get_database st now
      in case map_of (profiles db) (lower username) of
           None \<Rightarrow> (False, None)
         | Some profile_data \<Rightarrow>
             (case last_scraped (pr_metadata profile_data) of
                Iso t \<Rightarrow>
                  if now - t < timedelta_days 7 then (True, Some profile_data)
                  else (False, Some profile_data)
              | Text s \<Rightarrow> (False, Some profile_data)))"

definition get_profile_from_cache :: "store \<Rightarrow> int \<Rightarrow> string \<Rightarrow> profile option" where
  "get_profile_from_cache st now username = map_of (profiles (get_database st now)) (lower username)"

text \<open>
  The \<open>profile_info\<close> dictionary handed to \<open>insert_complete_profile\<close>.  Its keys are read
  with \<open>.get(key, default)\<close>, so an absent key is the default value of its field; only
  \<open>username\<close>, on which \<open>.lower()\<close> is called, distinguishes an absent key, the value
  \<open>None\<close> and a string.
\<close>

datatype 'a field = Missing | Null | Val 'a

record profile_info =
  pi_input :: string
  pi_name :: string
  pi_username :: "string field"
  pi_instagram_url :: string
  pi_confidence :: real
  pi_reason :: string
  pi_timestamp :: int
  pi_full_name :: string
  pi_bio :: string
  pi_website :: string
  pi_profile_pic_url :: string
  pi_is_verified :: bool
  pi_is_business_account :: bool
  pi_category :: string
  pi_followers_count :: int
  pi_following_count :: int
  pi_posts_count :: int

text \<open>\<open>dict(sorted(counts.items(), key=lambda x: x[1], reverse=True)[:20])\<close>: a stable
  sort by falling count.\<close>

definition top20 :: "(string \<times> nat) list \<Rightarrow> (string \<times> nat) list" where
  "top20 counts = take 20 (sort_key (\<lambda>(k, n). - int n) counts)"

definition build_profile :: "profile_info \<Rightarrow> string \<Rightarrow> post list \<Rightarrow> metrics option \<Rightarrow> scores option
    \<Rightarrow> int \<Rightarrow> profile" where
  "build_profile profile_info username_text posts_data metrics_data scores_data now =
     (let sponsored = filter isAd posts_data;
          organic = filter (\<lambda>p. \<not> isAd p) posts_data;
          hashtag_counts = foldl (\<lambda>acc p. count_all (hashtags p) acc) [] posts_data;
          mention_counts = foldl (\<lambda>acc p. count_all (mentions p) acc) [] posts_data
      in \<lparr> pr_basic_info =
             \<lparr> bi_username = username_text,
               bi_name = pi_name profile_info,
               bi_full_name = pi_full_name profile_info,
               bi_instagram_url = pi_instagram_url profile_info,
               bi_bio = pi_bio profile_info,
               bi_website = pi_website profile_info,
               bi_profile_pic_url = pi_profile_pic_url profile_info,
               bi_is_verified = pi_is_verified profile_info,
               bi_is_business_account = pi_is_business_account profile_info,
               bi_category = pi_category profile_info,
               bi_followers_count = pi_followers_count profile_info,
               bi_following_count = pi_following_count profile_info,
               bi_posts_count = pi_posts_count profile_info \<rparr>,
           pr_posts =
             \<lparr> total_posts = length posts_data, organic_posts = organic,
               sponsored_posts = sponsored, all_posts = posts_data \<rparr>,
           pr_analysis =
             \<lparr> an_metrics = metrics_data, an_scores = scores_data,
               an_engagement_rate = mget metrics_data avgEngagement_all 0,
               avg_likes = mget metrics_data avgLikes 0,
               avg_comments = mget metrics_data avgComments 0,
               avg_views = mget metrics_data avgViews 0 \<rparr>,
           pr_brand_collaborations =
             \<lparr> total_sponsored_posts = length sponsored,
               brands_worked_with = set (concat (map mentions sponsored)),
               bc_sponsored_posts = sponsored \<rparr>,
           pr_hashtags =
             \<lparr> most_used = top20 hashtag_counts, total_unique = length hashtag_counts \<rparr>,
           pr_mentions =
             \<lparr> most_mentioned = top20 mention_counts,
               total_mentions = sum_list (map snd mention_counts) \<rparr>,
           pr_metadata =
             \<lparr> last_scraped = Iso now, scraping_source = ''apify'', analysis_version = ''1.0'',
               md_original_query = pi_input profile_info \<rparr> \<rparr>)"

text \<open>
  \<open>insert_complete_profile\<close>.  \<open>save_ok\<close> tells whether the file can be written.  The
  result is the returned flag and the file afterwards, or the exception that \<open>.lower()\<close>
  raises on the value \<open>None\<close>.
\<close>

definition insert_complete_profile ::
  "store \<Rightarrow> int \<Rightarrow> bool \<Rightarrow> profile_info \<Rightarrow> post list \<Rightarrow> metrics option \<Rightarrow> scores option
    \<Rightarrow> py_error + (bool \<times> store)" where
  "insert_complete_profile st now save_ok profile_info posts_data metrics_data scores_data =
     (case pi_username profile_info of
        Null \<Rightarrow> Inl AttributeError
      | Missing \<Rightarrow> Inr (False, st)
      | Val u \<Rightarrow>
          (let username = lower u
           in if username = [] then Inr (False, st)
              else
                let db = get_database st now;
                    profile_data = build_profile profile_info u posts_data metrics_data scores_data now;
                    profiles' = AList.update username profile_data (profiles db);
                    db' = \<lparr> profiles = profiles',
                            db_metadata = (db_metadata db)\<lparr> total_profiles := Some (length profiles') \<rparr> \<rparr>
                in Inr (save_database st save_ok now db')))"

section \<open>api\_clients.py: the name heuristic and the spelling correction\<close>

definition non_name_indicators :: "string list" where
  "non_name_indicators =
     [''review'', ''best'', ''top'', ''how to'', ''tutorial'', ''guide'', ''tips'',
      ''laptop'', ''phone'', ''camera'', ''product'', ''brand'', ''company'',
      ''vs'', ''comparison'', ''price'', ''buy'', ''sell'', ''discount'', ''deal'',
      ''unboxing'', ''specs'', ''features'', ''gaming'', ''tech'', ''mobile'',
      ''what is'', ''which is'', ''where to'', ''when to'', ''why'',
      ''promote my'', ''advertise my'', ''marketing for'', ''influencers for'']"

text \<open>\<open>_looks_like_name\<close>.  The apostrophe is character 39.\<close>

definition looks_like_name :: "string \<Rightarrow> bool" where
  "looks_like_name q =
     (let query = lower (strip q)
      in if list_ex (\<lambda>indicator. sublist indicator query) non_name_indicators then False
         else
           let words = split_ws query
           in if length words = 0 \<or> length words > 4 then False
              else if length words = 1 then
                (let word = hd words
                 in (isalpha word \<or> isalnum (replace ''.'' [] (replace ''_'' [] word)))
                    \<and> 3 \<le> length word \<and> length word \<le> 20)
              else if length words = 2 then
                list_all (\<lambda>word. (isalpha word \<or> isalpha (replace [char_of (39::nat)] [] word))
                                \<and> 2 \<le> length word \<and> length word \<le> 15) words
              else if length words = 3 then
                list_all (\<lambda>word. (isalpha word \<or> isalpha (replace [char_of (39::nat)] [] word))
                                \<and> 2 \<le> length word \<and> length word \<le> 15) words
              else if length words = 4 then
                list_all (\<lambda>word. isalpha word \<and> 2 \<le> length word \<and> length word \<le> 12) words
              else False)"

record spell_result =
  is_influencer :: bool
  sr_corrected_name :: string
  sr_original_query :: string
  confidence :: real
  reasoning :: string

text \<open>
  The regular expression \<open>(\d*\.?\d+)\<close>: at a given position it matches a run of digits,
  a point and a non-empty run of digits if they are there, and otherwise a non-empty run
  of digits; \<open>re.search\<close> takes the leftmost position with a match.
\<close>

definition match_number_at :: "string \<Rightarrow> string option" where
  "match_number_at s =
     (let d1 = takeWhile is_digit s; rest = dropWhile is_digit s
      in case rest of
           [] \<Rightarrow> (if d1 \<noteq> [] then Some d1 else None)
         | c # r2 \<Rightarrow>
             (let d2 = takeWhile is_digit r2
              in if c = CHR ''.'' \<and> d2 \<noteq> [] then Some (d1 @ ''.'' @ d2)
                 else if d1 \<noteq> [] then Some d1 else None))"

fun search_number :: "string \<Rightarrow> string option" where
  "search_number [] = None"
| "search_number (c # cs) =
     (case match_number_at (c # cs) of Some m \<Rightarrow> Some m | None \<Rightarrow> search_number cs)"

text \<open>\<open>float(text)\<close> on a text of digits with at most one point.\<close>

definition digit_val :: "char \<Rightarrow> nat" where
  "digit_val c = of_char c - 48"

definition nat_of_digits :: "string \<Rightarrow> nat" where
  "nat_of_digits ds = foldl (\<lambda>acc c. 10 * acc + digit_val c) 0 ds"

definition float_of :: "string \<Rightarrow> real" where
  "float_of s =
     (let ip = takeWhile is_digit s; fp = drop 1 (dropWhile is_digit s)
      in real (nat_of_digits ip) + real (nat_of_digits fp) / 10 ^ length fp)"

text \<open>The non-empty stripped lines of a response.\<close>

definition response_lines :: "string \<Rightarrow> string list" where
  "response_lines response_text =
     map strip (filter (\<lambda>line. strip line \<noteq> []) (split_on (CHR 0x0A) response_text))"

definition spelling_line :: "spell_result \<Rightarrow> string \<Rightarrow> spell_result" where
  "spelling_line result line =
     (if prefix ''Is Influencer:'' line then
        (let is_inf = lower (strip (replace ''Is Influencer:'' [] line))
         in result\<lparr> is_influencer := is_inf \<in> set [''yes'', ''true'', ''1'', ''y''] \<rparr>)
      else if prefix ''Corrected Name:'' line then
        (let corrected = strip (replace ''Corrected Name:'' [] line)
         in if corrected \<noteq> [] \<and> lower corrected \<noteq> ''null''
            then result\<lparr> sr_corrected_name := corrected \<rparr> else result)
      else if prefix ''Confidence:'' line then
        (let conf_str = strip (replace ''Confidence:'' [] line)
         in case search_number conf_str of
              None \<Rightarrow> result
            | Some number \<Rightarrow>
                (let v = float_of number; conf_value = (if v > 1 then v / 100 else v)
                 in result\<lparr> confidence := min (max conf_value 0) 1 \<rparr>))
      else if prefix ''Reasoning:'' line then
        result\<lparr> reasoning := strip (replace ''Reasoning:'' [] line) \<rparr>
      else result)"

definition parse_spelling_correction_response :: "string \<Rightarrow> string \<Rightarrow> spell_result" where
  "parse_spelling_correction_response response_text original_query =
     (let result = \<lparr> is_influencer = True, sr_corrected_name = original_query,
                      sr_original_query = original_query, confidence = 0.5,
                      reasoning = ''Parsing failed, defaulted to influencer'' \<rparr>
      in if response_text = [] then result
         else foldl spelling_line result (response_lines response_text))"

text \<open>
  What the call of the language model inside the \<open>try\<close> block comes to: an exception, or
  the returned value (\<open>None\<close>, or the text of the completion).
\<close>

datatype llm_outcome = Raised | Reply "string option"

definition heuristic_fallback :: "string \<Rightarrow> spell_result" where
  "heuristic_fallback query =
     (let is_likely_name = looks_like_name query
      in \<lparr> is_influencer = is_likely_name, sr_corrected_name = query, sr_original_query = query,
           confidence = (if is_likely_name then 0.7 else 0.2),
           reasoning = ''AI spelling correction failed, using heuristic name detection'' \<rparr>)"

definition safety_check :: "string \<Rightarrow> spell_result \<Rightarrow> spell_result" where
  "safety_check query result =
     (if \<not> is_influencer result \<and> looks_like_name query
      then result\<lparr> is_influencer := True, confidence := 0.75,
                   reasoning := ''Overridden by heuristic: Appears to be a person's name'' \<rparr>
      else result)"

text \<open>\<open>spell_correct_influencer_name\<close>; \<open>llm\<close> is the outcome of \<open>message_model\<close>.\<close>

definition spell_correct_influencer_name :: "llm_outcome \<Rightarrow> string \<Rightarrow> spell_result" where
  "spell_correct_influencer_name llm query =
     (case llm of
        Reply (Some response) \<Rightarrow>
          if response \<noteq> []
          then safety_check query (parse_spelling_correction_response response query)
          else heuristic_fallback query
      | Reply None \<Rightarrow> heuristic_fallback query
      | Raised \<Rightarrow> heuristic_fallback query)"

text \<open>\<open>spell_correct_influencer_name_async\<close>; \<open>session_ok\<close> tells whether
  \<open>session_manager.get_session()\<close> returns, \<open>llm\<close> is the outcome of \<open>message_model_async\<close>.\<close>

definition spell_correct_influencer_name_async :: "bool \<Rightarrow> llm_outcome \<Rightarrow> string \<Rightarrow> spell_result" where
  "spell_correct_influencer_name_async session_ok llm query =
     (if \<not> session_ok then heuristic_fallback query
      else
        case llm of
          Reply (Some response) \<Rightarrow>
            if response \<noteq> []
            then safety_check query (parse_spelling_correction_response response query)
            else heuristic_fallback query
        | Reply None \<Rightarrow> heuristic_fallback query
        | Raised \<Rightarrow> heuristic_fallback query)"

section \<open>urllib.parse.urlparse\<close>

text \<open>
  The standard library's \<open>urlparse\<close>, as far as the candidate filter reads its result
  (\<open>hostname\<close> and \<open>path\<close>), for ASCII texts: leading control characters and spaces are
  stripped, tab, carriage return and line feed are removed, a scheme is split off at the
  first colon when everything before it is a scheme name, the network location follows a
  leading \<open>//\<close> up to the next \<open>/\<close>, \<open>?\<close> or \<open>#\<close>, then fragment, query and parameters are
  cut off the path.  Brackets that do not pair up in the network location raise
  \<open>ValueError\<close>; the further checks that later versions of the library make on a host
  name in brackets are left out.
\<close>

record parsed_url =
  u_scheme :: string
  u_netloc :: string
  u_path :: string
  u_params :: string
  u_query :: string
  u_fragment :: string

definition scheme_char :: "char \<Rightarrow> bool" where
  "scheme_char c = (is_alpha c \<or> is_digit c \<or> c \<in> set ''+-.'')"

definition uses_params :: "string list" where
  "uses_params = [[], ''ftp'', ''hdl'', ''prospero'', ''http'', ''imap'', ''https'', ''shttp'',
     ''rtsp'', ''rtspu'', ''sip'', ''sips'', ''mms'', ''sftp'', ''tel'']"

text \<open>\<open>s.partition(c)\<close>: the text before the first \<open>c\<close> and the text after it.\<close>

definition before_char :: "char \<Rightarrow> string \<Rightarrow> string" where
  "before_char c s = takeWhile (\<lambda>x. x \<noteq> c) s"

definition after_char :: "char \<Rightarrow> string \<Rightarrow> string" where
  "after_char c s = drop 1 (dropWhile (\<lambda>x. x \<noteq> c) s)"

definition split_scheme :: "string \<Rightarrow> string \<times> string" where
  "split_scheme url =
     (let pre = before_char (CHR '':'') url
      in if CHR '':'' \<in> set url \<and> pre \<noteq> [] \<and> is_alpha (hd pre) \<and> list_all scheme_char pre
         then (lower pre, after_char (CHR '':'') url) else ([], url))"

definition split_netloc :: "string \<Rightarrow> string \<times> string" where
  "split_netloc url =
     (if take 2 url = ''//''
      then (let rest = drop 2 url; n = takeWhile (\<lambda>c. c \<notin> set ''/?#'') rest
            in (n, drop (length n) rest))
      else ([], url))"

definition splitparams :: "string \<Rightarrow> string \<times> string" where
  "splitparams url =
     (if CHR ''/'' \<in> set url
      then (let last_seg = last (split_on (CHR ''/'') url);
                head = take (length url - length last_seg) url
            in if CHR '';'' \<in> set last_seg
               then (head @ before_char (CHR '';'') last_seg, after_char (CHR '';'') last_seg)
               else (url, []))
      else (before_char (CHR '';'') url, after_char (CHR '';'') url))"

definition urlparse :: "string \<Rightarrow> py_error + parsed_url" where
  "urlparse text =
     (let url0 = dropWhile (\<lambda>c. (of_char c :: nat) \<le> 32) text;
          url1 = filter (\<lambda>c. (of_char c :: nat) \<notin> {9, 10, 13}) url0;
          (sch, url2) = split_scheme url1;
          (net, url3) = split_netloc url2
      in if (CHR ''['' \<in> set net \<and> CHR '']'' \<notin> set net) \<or> (CHR '']'' \<in> set net \<and> CHR ''['' \<notin> set net)
         then Inl ValueError
         else
           let frag = after_char (CHR ''#'') url3; url4 = before_char (CHR ''#'') url3;
               qry = after_char (CHR ''?'') url4; url5 = before_char (CHR ''?'') url4;
               (url6, par) =
                 (if sch \<in> set uses_params \<and> CHR '';'' \<in> set url5 then splitparams url5 else (url5, []))
           in Inr \<lparr> u_scheme = sch, u_netloc = net, u_path = url6, u_params = par, u_query = qry,
                    u_fragment = frag \<rparr>)"

text \<open>The \<open>hostname\<close> property: \<open>None\<close> for an empty host name.\<close>

definition hostname :: "parsed_url \<Rightarrow> string option" where
  "hostname u =
     (let hostinfo = last (split_on (CHR ''@'') (u_netloc u));
          host = (if CHR ''['' \<in> set hostinfo
                  then before_char (CHR '']'') (after_char (CHR ''['') hostinfo)
                  else before_char (CHR '':'') hostinfo)
      in if host = [] then None
         else Some (lower (before_char (CHR ''%'') host) @ dropWhile (\<lambda>c. c \<noteq> CHR ''%'') host))"

section \<open>workflow\_logic.py: the candidate filter\<close>

record norm_data =
  nd_search_name :: string
  nd_aliases :: "string list"
  nd_handles :: "string list"
  nd_database_match :: bool

record search_item =
  si_link :: string
  si_title :: string
  si_snippet :: string

record candidate =
  c_title :: string
  c_url :: string
  c_snippet :: string
  c_fallback :: bool

text \<open>\<open>' OR '.join(terms)\<close>.\<close>

fun join :: "string \<Rightarrow> string list \<Rightarrow> string" where
  "join sep [] = []"
| "join sep [x] = x"
| "join sep (x # y # ys) = x @ sep @ join sep (y # ys)"

text \<open>\<open>re.match(r"^[a-z0-9._]+$", user, re.IGNORECASE)\<close>; the \<open>$\<close> also matches before
  a line feed that ends the text.\<close>

definition handle_char :: "char \<Rightarrow> bool" where
  "handle_char c = (is_alpha c \<or> is_digit c \<or> c = CHR ''.'' \<or> c = CHR ''_'')"

definition handle_re :: "string \<Rightarrow> bool" where
  "handle_re user =
     (let u = (if user \<noteq> [] \<and> last user = CHR 0x0A then butlast user else user)
      in u \<noteq> [] \<and> list_all handle_char u)"

text \<open>\<open>str(item.get('link', '')).split('?')[0].rstrip('/')\<close>.\<close>

definition clean_url :: "string \<Rightarrow> string" where
  "clean_url l = rstrip_char (CHR ''/'') (hd (split_on (CHR ''?'') l))"

definition path_segments :: "string \<Rightarrow> string list" where
  "path_segments p = filter (\<lambda>seg. seg \<noteq> []) (split_on (CHR ''/'') p)"

text \<open>The checks of the loop body on the cleaned address: the user name of the
  profile it points at, or \<open>None\<close> where the loop goes on to the next item (also when
  \<open>urlparse\<close> raises).\<close>

definition url_user :: "string \<Rightarrow> string option" where
  "url_user url =
     (if url = [] then None
      else
        case urlparse url of
          Inl e \<Rightarrow> None
        | Inr parsed \<Rightarrow>
            (case hostname parsed of
               None \<Rightarrow> None
             | Some host \<Rightarrow>
                 if \<not> sublist ''instagram.com'' host then None
                 else
                   let segs = path_segments (u_path parsed)
                   in if length segs \<noteq> 1 then None
                      else
                        let user = hd segs
                        in if \<not> handle_re user then None else Some user))"

fun filter_loop :: "string list \<Rightarrow> candidate list \<Rightarrow> search_item list \<Rightarrow> candidate list" where
  "filter_loop seen candidates [] = candidates"
| "filter_loop seen candidates (item # items) =
     (let url = clean_url (si_link item)
      in case url_user url of
           None \<Rightarrow> filter_loop seen candidates items
         | Some user \<Rightarrow>
             if lower user \<in> set seen then filter_loop seen candidates items
             else filter_loop (lower user # seen)
                    (candidates @ [\<lparr> c_title = si_title item, c_url = url, c_snippet = si_snippet item,
                                     c_fallback = False \<rparr>])
                    items)"

definition build_search_query_and_filter_candidates ::
  "norm_data \<Rightarrow> string \<Rightarrow> search_item list \<Rightarrow> string \<times> candidate list" where
  "build_search_query_and_filter_candidates norm_data fallback_query organic_results =
     (let terms = fromkeys (filter (\<lambda>term. term \<noteq> [] \<and> strip term \<noteq> [])
                    (strip (nd_search_name norm_data) # nd_aliases norm_data @ nd_handles norm_data));
          search_query = (if terms \<noteq> [] then join '' OR '' terms else fallback_query);
          candidates = filter_loop [] [] organic_results
      in if candidates = [] \<and> organic_results \<noteq> [] then
           (case find (\<lambda>i. sublist ''instagram.com/'' (si_link i)) organic_results of
              None \<Rightarrow> (search_query, candidates)
            | Some first_ig \<Rightarrow>
                (search_query,
                 [\<lparr> c_title = si_title first_ig, c_url = clean_url (si_link first_ig),
                    c_snippet = si_snippet first_ig, c_fallback = True \<rparr>]))
         else (search_query, candidates))"

section \<open>fast\_semantic\_matcher.py: the vector index\<close>

text \<open>
  The Python values that the sanity checks of \<open>build_faiss_index\<close> compare: integers and
  tuples of integers.  An order comparison between a tuple and an integer raises
  \<open>TypeError\<close>, an equality test between them is False, and an index outside a tuple
  raises \<open>IndexError\<close>.
\<close>

datatype pyval = PInt int | PTuple "int list"

fun lex_gt :: "int list \<Rightarrow> int list \<Rightarrow> bool" where
  "lex_gt [] ys = False"
| "lex_gt (x # xs) [] = True"
| "lex_gt (x # xs) (y # ys) = (x > y \<or> (x = y \<and> lex_gt xs ys))"

fun py_gt :: "pyval \<Rightarrow> pyval \<Rightarrow> py_error + bool" where
  "py_gt (PInt a) (PInt b) = Inr (a > b)"
| "py_gt (PTuple xs) (PTuple ys) = Inr (lex_gt xs ys)"
| "py_gt (PTuple xs) (PInt b) = Inl TypeError"
| "py_gt (PInt a) (PTuple ys) = Inl TypeError"

fun py_eq :: "pyval \<Rightarrow> pyval \<Rightarrow> bool" where
  "py_eq (PInt a) (PInt b) = (a = b)"
| "py_eq (PTuple xs) (PTuple ys) = (xs = ys)"
| "py_eq (PTuple xs) (PInt b) = False"
| "py_eq (PInt a) (PTuple ys) = False"

fun py_index :: "pyval \<Rightarrow> int \<Rightarrow> py_error + pyval" where
  "py_index (PInt a) i = Inl TypeError"
| "py_index (PTuple xs) i =
     (if 0 \<le> i \<and> i < int (length xs) then Inr (PInt (xs ! nat i))
      else if i < 0 \<and> - int (length xs) \<le> i then Inr (PInt (xs ! nat (i + int (length xs))))
      else Inl IndexError)"

definition bind_err :: "py_error + 'a \<Rightarrow> ('a \<Rightarrow> py_error + 'b) \<Rightarrow> py_error + 'b" where
  "bind_err m f = (case m of Inl e \<Rightarrow> Inl e | Inr x \<Rightarrow> f x)"

text \<open>\<open>assert cond\<close>, where evaluating \<open>cond\<close> may raise itself; with assertions
  switched off (\<open>python -O\<close>) the statement is skipped.\<close>

definition py_assert :: "bool \<Rightarrow> py_error + bool \<Rightarrow> (unit \<Rightarrow> py_error + 'a) \<Rightarrow> py_error + 'a" where
  "py_assert assertions cond rest =
     (if assertions
      then bind_err cond (\<lambda>b. if b then rest () else Inl AssertionError)
      else rest ())"

text \<open>A NumPy array: its shape and its entries in row-major order.\<close>

record ndarray =
  shape :: "nat list"
  entries :: "real list"

function chunks :: "nat \<Rightarrow> 'a list \<Rightarrow> 'a list list" where
  "chunks d xs = (if d = 0 \<or> xs = [] then [] else take d xs # chunks d (drop d xs))"
  by pat_completeness auto
termination
  by (relation "measure (\<lambda>(d, xs). length xs)") auto

definition shape_tuple :: "ndarray \<Rightarrow> pyval" where
  "shape_tuple a = PTuple (map int (shape a))"

text \<open>\<open>faiss.normalize_L2\<close>: every row is divided by its Euclidean norm, unless that is 0.\<close>

definition normalize_row :: "real list \<Rightarrow> real list" where
  "normalize_row v =
     (let n = sqrt (sum_list (map (\<lambda>x. x * x) v)) in if n > 0 then map (\<lambda>x. x / n) v else v)"

text \<open>An \<open>IndexFlatIP\<close>: its dimension and the vectors added to it; \<open>ntotal\<close> is its size.\<close>

record faiss_index =
  ix_d :: nat
  ix_vectors :: "real list list"

definition ntotal :: "faiss_index \<Rightarrow> nat" where
  "ntotal ix = length (ix_vectors ix)"

text \<open>The summary of an influencer in \<open>influencer_embeddings.json\<close>.\<close>

record summary =
  su_username :: string
  su_name :: string
  su_category :: string
  su_bio :: string
  su_top_hashtags :: "string list"
  su_followers :: int
  su_engagement_rate :: real
  su_verified :: bool
  su_brand_collaborations :: "string list"
  su_content_quality :: real
  su_authenticity :: real
  su_brand_safety :: real
  su_audience_match :: real

record matcher =
  influencer_data :: "(string \<times> summary) list"
  is_loaded :: bool
  faiss_index :: "faiss_index option"
  username_list :: "string list"
  embedding_dim :: nat

text \<open>
  \<open>load_precomputed_embeddings\<close>: \<open>summaries\<close> is the content of
  \<open>influencer_embeddings.json\<close> and \<open>index_files\<close> that of the saved index with its user
  name mapping, each \<open>None\<close> when it cannot be read.
\<close>

definition load_precomputed_embeddings ::
  "(string \<times> summary) list option \<Rightarrow> (faiss_index \<times> string list) option \<Rightarrow> matcher \<Rightarrow> matcher" where
  "load_precomputed_embeddings summaries index_files self =
     (case summaries of
        None \<Rightarrow> self\<lparr> is_loaded := False \<rparr>
      | Some data \<Rightarrow>
          (let self1 = self\<lparr> influencer_data := data, is_loaded := True \<rparr>
           in case index_files of
                None \<Rightarrow> self1
              | Some (ix, names) \<Rightarrow> self1\<lparr> faiss_index := Some ix, username_list := names \<rparr>))"

text \<open>\<open>index.add(x)\<close> on an \<open>IndexFlatIP\<close> of dimension \<open>d\<close>: the array must have two
  axes, the second of length \<open>d\<close>; its rows are appended.\<close>

definition index_add :: "faiss_index \<Rightarrow> ndarray \<Rightarrow> real list list \<Rightarrow> py_error + faiss_index" where
  "index_add ix x rows =
     (case shape x of
        [n, d] \<Rightarrow>
          if d = ix_d ix then Inr (ix\<lparr> ix_vectors := ix_vectors ix @ rows \<rparr>)
          else Inl AssertionError
      | _ \<Rightarrow> Inl ValueError)"

text \<open>
  \<open>build_faiss_index\<close>, statement by statement.  \<open>assertions\<close> tells whether the
  interpreter runs \<open>assert\<close> statements.  The result is the matcher afterwards, or the
  exception that ends the call.
\<close>

definition build_faiss_index ::
  "bool \<Rightarrow> matcher \<Rightarrow> ndarray \<Rightarrow> string list \<Rightarrow> py_error + matcher" where
  "build_faiss_index assertions self embeddings usernames =
     py_assert assertions (Inr (length (shape embeddings) = 2)) (\<lambda>_.
     py_assert assertions
       (bind_err (py_gt (shape_tuple embeddings) (PInt 0)) (\<lambda>b.
          if b then bind_err (py_index (shape_tuple embeddings) 18) (\<lambda>v. py_gt v (PInt 0))
          else Inr False)) (\<lambda>_.
     py_assert assertions
       (Inr (py_eq (PInt (int (length usernames))) (shape_tuple embeddings))) (\<lambda>_.
     bind_err (py_index (shape_tuple embeddings) 18) (\<lambda>d.
       case d of
         PTuple xs \<Rightarrow> Inl TypeError
       | PInt dm \<Rightarrow>
           (let rows = map normalize_row (chunks (nat dm) (entries embeddings))
            in bind_err (index_add \<lparr> ix_d = nat dm, ix_vectors = [] \<rparr> embeddings rows) (\<lambda>index.
                 Inr (self\<lparr> faiss_index := Some index, username_list := usernames,
                            embedding_dim := nat dm \<rparr>)))))))"

text \<open>
  \<open>index.search(q, top_k)\<close> on an \<open>IndexFlatIP\<close>: the \<open>top_k\<close> best inner products with
  their positions, best first; when the index holds fewer vectors, the rest is filled
  with the position -1.
\<close>

definition inner_product :: "real list \<Rightarrow> real list \<Rightarrow> real" where
  "inner_product q v = sum_list (map (\<lambda>(a, b). a * b) (zip q v))"

definition faiss_search :: "faiss_index \<Rightarrow> real list \<Rightarrow> nat \<Rightarrow> (real \<times> int) list" where
  "faiss_search ix q top_k =
     (let scored = map (\<lambda>(i, v). (inner_product q v, int i)) (enumerate 0 (ix_vectors ix));
          best = take top_k (sort_key (\<lambda>(s, i). - s) scored)
      in best @ replicate (top_k - length best) (0, - 1))"

text \<open>The loop of \<open>search_by_text\<close> over the scores and positions; \<open>names[idx]\<close> is
  Python's indexing, which counts a negative position from the end.\<close>

fun collect_hits :: "string list \<Rightarrow> (real \<times> int) list \<Rightarrow> py_error + (string \<times> real) list" where
  "collect_hits names [] = Inr []"
| "collect_hits names ((score, idx) # rest) =
     (if idx = - 1 then collect_hits names rest
      else if idx \<ge> int (length names) then collect_hits names rest
      else if idx < - int (length names) then Inl IndexError
      else
        let username = (if idx < 0 then names ! nat (int (length names) + idx) else names ! nat idx)
        in bind_err (collect_hits names rest) (\<lambda>results. Inr ((username, score) # results)))"

text \<open>\<open>search_by_text\<close>; \<open>q_vec\<close> is the embedding of the text.\<close>

definition search_by_text :: "matcher \<Rightarrow> real list \<Rightarrow> nat \<Rightarrow> py_error + (string \<times> real) list" where
  "search_by_text self q_vec top_k =
     (case faiss_index self of
        None \<Rightarrow> Inr []
      | Some ix \<Rightarrow>
          if username_list self = [] then Inr []
          else collect_hits (username_list self) (faiss_search ix q_vec top_k))"

section \<open>api\_clients.py: normalisation, profile selection and scoring replies\<close>

text \<open>\<open>s.title()\<close>: a letter that follows a letter is lower-cased, any other letter is
  upper-cased.\<close>

fun title_acc :: "bool \<Rightarrow> string \<Rightarrow> string" where
  "title_acc prev [] = []"
| "title_acc prev (c # cs) =
     (if is_lower c then (if prev then c else upper_char c) # title_acc True cs
      else if is_upper c then (if prev then lower_char c else c) # title_acc True cs
      else c # title_acc False cs)"

definition title :: "string \<Rightarrow> string" where
  "title s = title_acc False s"

datatype list_section = Aliases | Handles

definition normalization_line ::
  "norm_data \<times> list_section option \<Rightarrow> string \<Rightarrow> norm_data \<times> list_section option" where
  "normalization_line st line =
     (let result = fst st; current_section = snd st; line_lower = lower line
      in if sublist ''search name:'' line_lower then
           (let name = strip (after_char (CHR '':'') line)
            in if name \<noteq> [] \<and> length name < 100
               then (result\<lparr> nd_search_name := name \<rparr>, current_section)
               else (result, current_section))
         else if line_lower = ''aliases:'' then (result, Some Aliases)
         else if line_lower = ''handles:'' then (result, Some Handles)
         else if prefix ''- '' line \<and> current_section \<noteq> None then
           (let item = strip (drop 2 line)
            in if length item < 50 \<and> length (split_ws item) \<le> 4
                  \<and> lower item \<notin> set [''none known'', ''none'', ''n/a'']
               then (case current_section of
                       Some Aliases \<Rightarrow> (result\<lparr> nd_aliases := nd_aliases result @ [item] \<rparr>, current_section)
                     | Some Handles \<Rightarrow> (result\<lparr> nd_handles := nd_handles result @ [item] \<rparr>, current_section)
                     | None \<Rightarrow> (result, current_section))
               else (result, current_section))
         else (result, current_section))"

definition parse_normalization_response :: "string \<Rightarrow> string \<Rightarrow> norm_data" where
  "parse_normalization_response response_text original_query =
     (let result0 =
            \<lparr> nd_search_name = title original_query,
              nd_aliases = [lower original_query, title original_query],
              nd_handles = [lower (replace '' '' [] original_query),
                            lower (replace '' '' ''_'' original_query)],
              nd_database_match = False \<rparr>
      in if response_text = [] then result0
         else
           let result1 = fst (foldl normalization_line (result0, None) (response_lines response_text));
               result2 =
                 (if length (nd_aliases result1) < 2
                  then result1\<lparr> nd_aliases := [lower original_query, title original_query,
                                                replace '' '' [] original_query] \<rparr>
                  else result1);
               base = lower (replace '' '' [] original_query)
           in if length (nd_handles result2) < 2
              then result2\<lparr> nd_handles := [base, base @ ''official'', replace '' '' ''_'' base,
                                            replace '' '' ''.'' base, base @ ''22''] \<rparr>
              else result2)"

text \<open>An entry of the list that \<open>get_available_influencers\<close> builds.\<close>

record influencer_entry =
  ie_username :: string
  ie_name :: string
  ie_followers :: int
  ie_source :: string

definition known_names_of :: "influencer_entry list \<Rightarrow> string list" where
  "known_names_of available_influencers =
     map (\<lambda>inf. ie_name inf @ '' (@'' @ ie_username inf @ '')'')
       (filter (\<lambda>inf. ie_name inf \<noteq> []) (take 30 available_influencers))"

text \<open>\<open>enhanced_influencer_normalization\<close>; \<open>llm\<close> is the outcome of \<open>message_model\<close>.\<close>

definition enhanced_influencer_normalization ::
  "llm_outcome \<Rightarrow> string \<Rightarrow> influencer_entry list \<Rightarrow> norm_data" where
  "enhanced_influencer_normalization llm query available_influencers =
     (let known_names = known_names_of available_influencers;
          fallback_result =
            \<lparr> nd_search_name = title query,
              nd_aliases = [lower query, title query, replace '' '' [] query, replace '' '' ''_'' query],
              nd_handles = [lower (replace '' '' [] query), lower (replace '' '' ''_'' query),
                            lower (replace '' '' ''.'' query),
                            lower (replace '' '' [] query) @ ''official'',
                            lower (replace '' '' [] query) @ ''22''],
              nd_database_match = False \<rparr>
      in case llm of
           Reply (Some response) \<Rightarrow>
             if response \<noteq> [] then
               (let normalized = parse_normalization_response response query
                in if list_ex (\<lambda>known. sublist (lower query) (lower known)) known_names
                   then normalized\<lparr> nd_database_match := True \<rparr> else normalized)
             else fallback_result
         | Reply None \<Rightarrow> fallback_result
         | Raised \<Rightarrow> fallback_result)"

text \<open>The dictionary of \<open>parse_profile_selection_response\<close>: a key is absent until a
  line of the reply sets it.\<close>

record selection =
  sel_name :: "string option"
  sel_username :: "string option"
  sel_instagram_url :: "string option"
  sel_confidence :: "real option"

definition selection_line :: "selection \<Rightarrow> string \<Rightarrow> selection" where
  "selection_line result line =
     (if prefix ''Name:'' line then result\<lparr> sel_name := Some (strip (replace ''Name:'' [] line)) \<rparr>
      else if prefix ''Username:'' line
        then result\<lparr> sel_username := Some (strip (replace ''Username:'' [] line)) \<rparr>
      else if prefix ''Instagram URL:'' line
        then result\<lparr> sel_instagram_url := Some (strip (replace ''Instagram URL:'' [] line)) \<rparr>
      else if prefix ''Confidence:'' line then
        (let conf_str = strip (replace ''Confidence:'' [] line)
         in result\<lparr> sel_confidence :=
              Some (case search_number conf_str of None \<Rightarrow> 0.5 | Some number \<Rightarrow> float_of number) \<rparr>)
      else result)"

definition empty_selection :: selection where
  "empty_selection =
     \<lparr> sel_name = None, sel_username = None, sel_instagram_url = None, sel_confidence = None \<rparr>"

definition parse_profile_selection_response :: "string \<Rightarrow> selection" where
  "parse_profile_selection_response response_text =
     (if response_text = [] then empty_selection
      else foldl selection_line empty_selection (response_lines response_text))"

text \<open>The regular expression \<open>(\d+(?:\.\d+)?)\<close> of \<open>parse_scoring_response\<close>: the
  leftmost run of digits, with a point and further digits if they follow.\<close>

definition match_score_at :: "string \<Rightarrow> string option" where
  "match_score_at s =
     (let d1 = takeWhile is_digit s; rest = dropWhile is_digit s
      in if d1 = [] then None
         else
           case rest of
             [] \<Rightarrow> Some d1
           | c # r2 \<Rightarrow>
               (let d2 = takeWhile is_digit r2
                in if c = CHR ''.'' \<and> d2 \<noteq> [] then Some (d1 @ ''.'' @ d2) else Some d1))"

fun search_score :: "string \<Rightarrow> string option" where
  "search_score [] = None"
| "search_score (c # cs) =
     (case match_score_at (c # cs) of Some m \<Rightarrow> Some m | None \<Rightarrow> search_score cs)"

definition scoring_line :: "scores \<Rightarrow> string \<Rightarrow> scores" where
  "scoring_line sc line =
     (case search_score line of
        None \<Rightarrow> sc
      | Some number \<Rightarrow>
          (let score_value = float_of number
           in if sublist ''authenticity'' (lower line)
                then sc\<lparr> Authenticity := min 100 (max 0 score_value) \<rparr>
              else if sublist ''brand safety'' (lower line)
                then sc\<lparr> BrandSafety := min 100 (max 0 score_value) \<rparr>
              else if sublist ''audience match'' (lower line)
                then sc\<lparr> AudienceMatch := min 100 (max 0 score_value) \<rparr>
              else if sublist ''content quality'' (lower line)
                then sc\<lparr> ContentQuality := min 100 (max 0 score_value) \<rparr>
              else sc))"

definition parse_scoring_response :: "string \<Rightarrow> string \<Rightarrow> metrics option \<Rightarrow> scores" where
  "parse_scoring_response response_text username m =
     (let sc = \<lparr> s_username = username,
                  s_postsAnalyzed = mget m postsAnalyzed 0,
                  avgER_organic = mget m avgEngagement_organic 0,
                  avgER_sponsored = mget m avgEngagement_sponsored 0,
                  s_avgLikes = mget m avgLikes 0,
                  avg_sponsored_likes = 0,
                  s_avgComments = mget m avgComments 0,
                  avg_sponsored_comments = 0,
                  s_avgViews = mget m avgViews 0,
                  Authenticity = 75, BrandSafety = 85, AudienceMatch = 70, ContentQuality = 75 \<rparr>
      in if response_text = [] \<or> length (strip response_text) < 10 then sc
         else foldl scoring_line sc (response_lines response_text))"

section \<open>workflow\_logic.py: profile data and post analysis\<close>

text \<open>The regular expression \<open>instagram\.com\/([^\/?#]+)\<close>, matched without regard to
  case: the text up to the next \<open>/\<close>, \<open>?\<close> or \<open>#\<close> after the leftmost ``instagram.com/''
  that is followed by such a text.\<close>

fun search_instagram_user :: "string \<Rightarrow> string option" where
  "search_instagram_user [] = None"
| "search_instagram_user (c # cs) =
     (let s = c # cs; group = takeWhile (\<lambda>x. x \<notin> set ''/?#'') (drop 14 s)
      in if lower (take 14 s) = ''instagram.com/'' \<and> group \<noteq> [] then Some group
         else search_instagram_user cs)"

text \<open>\<open>format_profile_data\<close>; \<open>now\<close> is the time of the call.  The keys that only the
  scraper sets keep the defaults with which they are read later.\<close>

definition format_profile_data :: "selection \<Rightarrow> string \<Rightarrow> int \<Rightarrow> profile_info" where
  "format_profile_data selected_profile original_query now =
     (let url0 = (case sel_instagram_url selected_profile of None \<Rightarrow> [] | Some u \<Rightarrow> u);
          url1 = (if url0 = [] then url0
                  else
                    let u1 = (if lower (take 7 url0) = ''http://'' \<or> lower (take 8 url0) = ''https://''
                              then url0 else ''https://'' @ lstrip_char (CHR ''/'') url0)
                    in if u1 \<noteq> [] \<and> last u1 = CHR ''/'' then u1 else u1 @ ''/'');
          username = (if url0 = [] then None else search_instagram_user url1)
      in \<lparr> pi_input = original_query,
           pi_name = (case sel_name selected_profile of None \<Rightarrow> [] | Some n \<Rightarrow> n),
           pi_username = (case username of None \<Rightarrow> Null | Some u \<Rightarrow> Val u),
           pi_instagram_url = url1,
           pi_confidence = (case sel_confidence selected_profile of None \<Rightarrow> 0 | Some c \<Rightarrow> c),
           pi_reason = [],
           pi_timestamp = now,
           pi_full_name = [], pi_bio = [], pi_website = [], pi_profile_pic_url = [],
           pi_is_verified = False, pi_is_business_account = False, pi_category = [],
           pi_followers_count = 0, pi_following_count = 0, pi_posts_count = 0 \<rparr>)"

text \<open>A raw post as the scraper returns it.  \<open>raw_timestamp\<close> is the parsed form of the
  \<open>timestamp\<close> text, as in the record \<open>post\<close>.\<close>

record raw_comment =
  rc_text :: string
  rc_likesCount :: int

record raw_post =
  raw_id :: string
  raw_type :: string
  raw_url :: string
  raw_timestamp :: "real option"
  raw_caption :: string
  raw_text :: string
  raw_likesCount :: int
  raw_commentsCount :: int
  raw_videoViewCount :: int
  raw_videoPlayCount :: int
  raw_latestComments :: "raw_comment list"
  raw_hashtags :: "string list"
  raw_mentions :: "string list"
  raw_paidPartnership :: bool
  raw_isSponsored :: bool
  raw_ownerUsername :: "string option"

text \<open>\<open>max(comments, key=likes)\<close>: the first comment with the most likes.\<close>

fun best_comment :: "raw_comment \<Rightarrow> raw_comment list \<Rightarrow> raw_comment" where
  "best_comment b [] = b"
| "best_comment b (c # cs) = best_comment (if rc_likesCount c > rc_likesCount b then c else b) cs"

definition analyze_post :: "string \<Rightarrow> raw_post \<Rightarrow> post" where
  "analyze_post username p =
     (let top_comment =
            (case raw_latestComments p of
               [] \<Rightarrow> \<lparr> tc_text = ''No comments found'', tc_likes = 0 \<rparr>
             | c # cs \<Rightarrow> (let b = best_comment c cs in \<lparr> tc_text = rc_text b, tc_likes = rc_likesCount b \<rparr>));
          is_ad = (list_ex (\<lambda>h. lower h = ''ad'') (raw_hashtags p)
                   \<or> raw_paidPartnership p \<or> raw_isSponsored p);
          caption = (if raw_caption p \<noteq> [] then raw_caption p
                     else if raw_text p \<noteq> [] then raw_text p else ''No caption'')
      in \<lparr> p_username = username,
           ownerUsername = (case raw_ownerUsername p of None \<Rightarrow> username | Some u \<Rightarrow> u),
           postId = raw_id p, postType = raw_type p, postUrl = raw_url p,
           timestamp = raw_timestamp p,
           topic = take 100 (hd (split_on (CHR 0x0A) caption)),
           likesCount = raw_likesCount p, commentsCount = raw_commentsCount p,
           videoViewCount = raw_videoViewCount p, videoPlayCount = raw_videoPlayCount p,
           topComment = top_comment, isAd = is_ad,
           mentions = raw_mentions p, hashtags = raw_hashtags p \<rparr>)"

definition analyze_instagram_posts :: "raw_post list \<Rightarrow> string \<Rightarrow> post list" where
  "analyze_instagram_posts posts_data username = map (analyze_post username) posts_data"

section \<open>The outside world\<close>

text \<open>
  The calls that leave the process are answered by the world: the language model
  (\<open>message_model\<close>, asked to normalise a query, to select a profile among candidates and
  to score metrics), the web search (\<open>search_google\<close>), the scraper
  (\<open>scrape_complete_instagram_profile\<close>) and the file system (\<open>w_save_ok\<close>: can the store
  be written; \<open>embeddings_file\<close> and \<open>index_files\<close>: the files of the vector index).  The
  functions that suspend have answers of their own (\<open>spelling_reply_async\<close>,
  \<open>search_google_async\<close>, \<open>selector_reply_async\<close>,
  \<open>scrape_complete_instagram_profile_async\<close>; \<open>session_ok\<close>: does
  \<open>session_manager.get_session()\<close> return).  A reply of the language model is \<open>None\<close> or
  a non-empty stripped text.  The clock stands still during one run, at \<open>w_now\<close>.  Every such call, every lookup in a
  local store and every write of the store is recorded in a trace, in the order in which
  the calls are made.
\<close>

record scraped_profile =
  sp_username :: string
  sp_name :: string
  sp_full_name :: string
  sp_bio :: string
  sp_website :: string
  sp_profile_pic_url :: string
  sp_is_verified :: bool
  sp_is_business_account :: bool
  sp_category :: string
  sp_followers_count :: int
  sp_following_count :: int
  sp_posts_count :: int
  sp_instagram_url :: string

record world =
  normalizer_reply :: "string \<Rightarrow> string option"
  spelling_reply :: "string \<Rightarrow> llm_outcome"
  normalization_reply :: "string \<Rightarrow> llm_outcome"
  search_google :: "string \<Rightarrow> search_item list option"
  selector_reply :: "string \<Rightarrow> candidate list \<Rightarrow> string option"
  scoring_reply :: "string \<Rightarrow> metrics option \<Rightarrow> string option"
  scrape_complete_instagram_profile :: "string \<Rightarrow> scraped_profile option \<times> raw_post list"
  w_save_ok :: bool
  w_now :: int
  embeddings_file :: "(string \<times> summary) list option"
  index_files :: "(faiss_index \<times> string list) option"
  session_ok :: bool
  spelling_reply_async :: "string \<Rightarrow> llm_outcome"
  search_google_async :: "string \<Rightarrow> search_item list option"
  selector_reply_async :: "string \<Rightarrow> candidate list \<Rightarrow> llm_outcome"
  scrape_complete_instagram_profile_async :: "string \<Rightarrow> scraped_profile option \<times> raw_post list"

datatype event =
    LLM_call
  | Lookup_main string
  | Lookup_embeddings string
  | Google_search string
  | Scrape string
  | Store_write

text \<open>The events of remote enrichment: the web search for profiles and the scrape.\<close>

fun remote_event :: "event \<Rightarrow> bool" where
  "remote_event (Google_search q) = True"
| "remote_event (Scrape u) = True"
| "remote_event e = False"

fun scrape_event :: "event \<Rightarrow> bool" where
  "scrape_event (Scrape u) = True"
| "scrape_event e = False"

text \<open>\<open>profile_data.update(scraped_profile)\<close>.\<close>

definition update_profile_info :: "profile_info \<Rightarrow> scraped_profile \<Rightarrow> profile_info" where
  "update_profile_info profile_data sp =
     profile_data
       \<lparr> pi_username := Val (sp_username sp), pi_name := sp_name sp,
         pi_full_name := sp_full_name sp, pi_bio := sp_bio sp, pi_website := sp_website sp,
         pi_profile_pic_url := sp_profile_pic_url sp, pi_is_verified := sp_is_verified sp,
         pi_is_business_account := sp_is_business_account sp, pi_category := sp_category sp,
         pi_followers_count := sp_followers_count sp,
         pi_following_count := sp_following_count sp, pi_posts_count := sp_posts_count sp,
         pi_instagram_url := sp_instagram_url sp \<rparr>"

text \<open>The scores of a profile without posts.\<close>

definition profile_only_scores :: "string \<Rightarrow> scores" where
  "profile_only_scores username =
     \<lparr> s_username = username, s_postsAnalyzed = 0, avgER_organic = 0, avgER_sponsored = 0,
       s_avgLikes = 0, avg_sponsored_likes = 0, s_avgComments = 0, avg_sponsored_comments = 0,
       s_avgViews = 0, Authenticity = 70, BrandSafety = 85, AudienceMatch = 60,
       ContentQuality = 65 \<rparr>"

definition all_scores_zero :: "scores \<Rightarrow> bool" where
  "all_scores_zero sc =
     (Authenticity sc = 0 \<and> BrandSafety sc = 0 \<and> AudienceMatch sc = 0 \<and> ContentQuality sc = 0)"

section \<open>main.py: the workflow\<close>

text \<open>What a run leaves behind: the returned profile (\<open>None\<close> for a failed run), the
  store afterwards and the trace.\<close>

record run =
  returned :: "profile option"
  store_after :: store
  trace :: "event list"

definition give_up :: "store \<Rightarrow> event list \<Rightarrow> run" where
  "give_up st evs = \<lparr> returned = None, store_after = st, trace = evs \<rparr>"

text \<open>Steps 1 to 5 of \<open>run_workflow\<close>: the query is normalised, searched for, the
  candidates are filtered and one profile is selected and formatted.  The result is the
  trace so far and the formatted profile data, or \<open>None\<close> where the workflow returns
  \<open>None\<close>.\<close>

definition select_profile :: "world \<Rightarrow> string \<Rightarrow> event list \<times> profile_info option" where
  "select_profile w chat_message =
     (let normalized_data =
            (case normalizer_reply w chat_message of
               None \<Rightarrow> \<lparr> nd_search_name = chat_message, nd_aliases = [], nd_handles = [],
                         nd_database_match = False \<rparr>
             | Some normalized_text \<Rightarrow> parse_normalization_response normalized_text chat_message);
          query = nd_search_name normalized_data;
          ev2 = [LLM_call, Google_search query]
      in case search_google w query of
           None \<Rightarrow> (ev2, None)
         | Some organic_results \<Rightarrow>
             (let candidates =
                    snd (build_search_query_and_filter_candidates normalized_data chat_message
                           organic_results)
              in if candidates = [] then (ev2, None)
                 else
                   let ev4 = ev2 @ [LLM_call];
                       selected_profile =
                         (case selector_reply w chat_message (take 3 candidates) of
                            None \<Rightarrow>
                              (let first_candidate = hd candidates
                               in \<lparr> sel_name = Some chat_message,
                                    sel_username = Some (last (split_on (CHR ''/'') (c_url first_candidate))),
                                    sel_instagram_url = Some (c_url first_candidate),
                                    sel_confidence = Some 0.5 \<rparr>)
                          | Some selection_text \<Rightarrow> parse_profile_selection_response selection_text)
                   in if selected_profile = empty_selection
                         \<or> sel_instagram_url selected_profile = None
                         \<or> sel_instagram_url selected_profile = Some []
                      then (ev4, None)
                      else
                        let profile_data = format_profile_data selected_profile chat_message (w_now w)
                        in case pi_username profile_data of
                             Val username \<Rightarrow>
                               if username = [] then (ev4, None) else (ev4, Some profile_data)
                           | Null \<Rightarrow> (ev4, None)
                           | Missing \<Rightarrow> (ev4, None)))"

text \<open>Whether \<open>insert_complete_profile\<close> gets as far as \<open>save_database\<close>.\<close>

definition reaches_save :: "profile_info \<Rightarrow> bool" where
  "reaches_save profile_data =
     (case pi_username profile_data of Val u \<Rightarrow> lower u \<noteq> [] | Null \<Rightarrow> False | Missing \<Rightarrow> False)"

text \<open>Steps 7 to 11 of \<open>run_workflow\<close>: scrape, analyse, score and save.\<close>

definition scrape_and_save :: "world \<Rightarrow> store \<Rightarrow> event list \<Rightarrow> profile_info \<Rightarrow> string \<Rightarrow> run" where
  "scrape_and_save w st evs profile_data0 username =
     (let (scraped, posts_raw) = scrape_complete_instagram_profile w username;
          ev7 = evs @ [Scrape username];
          has_profile = (scraped \<noteq> None);
          has_posts = (posts_raw \<noteq> [])
      in if \<not> has_profile \<and> \<not> has_posts then give_up st ev7
         else
           let profile_data =
                 (case scraped of None \<Rightarrow> profile_data0
                  | Some sp \<Rightarrow> update_profile_info profile_data0 sp);
               analyzed_posts = (if has_posts then analyze_instagram_posts posts_raw username else []);
               m = (if has_posts then aggregate_post_metrics analyzed_posts else None);
               ev10 = (if has_posts then ev7 @ [LLM_call] else ev7);
               scores0 =
                 (if has_posts then
                    (case scoring_reply w username m of
                       Some scoring_text \<Rightarrow> parse_scoring_response scoring_text username m
                     | None \<Rightarrow> calculate_scores_manually m username)
                  else profile_only_scores username);
               scores1 = (if all_scores_zero scores0 then calculate_scores_manually m username
                          else scores0);
               ev11 = (if reaches_save profile_data then ev10 @ [Store_write] else ev10)
           in case insert_complete_profile st (w_now w) (w_save_ok w) profile_data analyzed_posts m
                     (Some scores1) of
                Inl e \<Rightarrow> give_up st ev10
              | Inr (success, st') \<Rightarrow>
                  if success
                  then \<lparr> returned = get_profile_from_cache st' (w_now w) username,
                         store_after = st', trace = ev11 \<rparr>
                  else give_up st' ev11)"

definition run_workflow :: "world \<Rightarrow> store \<Rightarrow> string \<Rightarrow> run" where
  "run_workflow w st chat_message =
     (if chat_message = [] \<or> strip chat_message = [] then give_up st []
      else
        case select_profile w chat_message of
          (evs, None) \<Rightarrow> give_up st evs
        | (evs, Some profile_data) \<Rightarrow>
            (case pi_username profile_data of
               Val username \<Rightarrow>
                 (case check_profile_exists st (w_now w) username of
                    (True, Some cached_data) \<Rightarrow>
                      \<lparr> returned = Some cached_data, store_after = st, trace = evs \<rparr>
                  | (exists, cached) \<Rightarrow> scrape_and_save w st evs profile_data username)
             | Null \<Rightarrow> give_up st evs
             | Missing \<Rightarrow> give_up st evs))"

section \<open>unified\_data\_manager.py: lookup in the local stores, then auto-scraping\<close>

record manager =
  main_db_loaded :: bool
  embeddings_loaded :: bool
  auto_scraping_enabled :: bool

definition ensure_all_data_loaded :: "world \<Rightarrow> manager \<Rightarrow> matcher \<Rightarrow> manager \<times> matcher" where
  "ensure_all_data_loaded w self mt =
     (if \<not> embeddings_loaded self
      then (let mt' = load_precomputed_embeddings (embeddings_file w) (index_files w) mt
            in (self\<lparr> embeddings_loaded := is_loaded mt', main_db_loaded := True \<rparr>, mt'))
      else (self\<lparr> main_db_loaded := True \<rparr>, mt))"

definition get_available_influencers :: "world \<Rightarrow> store \<Rightarrow> manager \<Rightarrow> matcher \<Rightarrow> influencer_entry list" where
  "get_available_influencers w st self0 mt0 =
     (let (self, mt) = ensure_all_data_loaded w self0 mt0;
          from_main =
            map (\<lambda>(username, profile_data).
                   \<lparr> ie_username = username, ie_name = bi_name (pr_basic_info profile_data),
                     ie_followers = bi_followers_count (pr_basic_info profile_data),
                     ie_source = ''main_db'' \<rparr>)
              (profiles (get_database st (w_now w)))
      in if embeddings_loaded self
         then foldl (\<lambda>influencers (username, data).
                       if list_ex (\<lambda>inf. lower (ie_username inf) = lower username) influencers
                       then influencers
                       else influencers @ [\<lparr> ie_username = username, ie_name = su_name data,
                                               ie_followers = su_followers data,
                                               ie_source = ''embeddings'' \<rparr>])
                from_main (influencer_data mt)
         else from_main)"

definition generate_username_variations :: "string \<Rightarrow> string list" where
  "generate_username_variations name =
     (let name_clean = strip (lower name); joined = replace '' '' [] name_clean
      in fromkeys
           [joined, replace '' '' ''.'' name_clean, replace '' '' ''_'' name_clean,
            joined @ ''22'', joined @ ''official'', joined @ ''real'',
            ''official'' @ joined, ''real'' @ joined, joined @ ''vlogs'', joined @ ''youtube''])"

text \<open>The test of the name search of \<open>_search_main_database\<close> on one stored profile.\<close>

definition main_name_match :: "string \<Rightarrow> profile \<Rightarrow> bool" where
  "main_name_match search_lower profile_data =
     (let stored_name = lower (bi_name (pr_basic_info profile_data));
          stored_full_name = lower (bi_full_name (pr_basic_info profile_data));
          search_words = split_ws search_lower;
          name_words = split_ws stored_name @ split_ws stored_full_name
      in search_lower = stored_name \<or> search_lower = stored_full_name
         \<or> (stored_name \<noteq> [] \<and> (sublist search_lower stored_name \<or> sublist stored_name search_lower))
         \<or> (stored_full_name \<noteq> []
             \<and> (sublist search_lower stored_full_name \<or> sublist stored_full_name search_lower))
         \<or> (length search_words > 1
             \<and> list_ex (\<lambda>word. length word > 2 \<and> word \<in> set name_words) search_words))"

text \<open>\<open>_search_main_database\<close>: the profile found and the user name under which it was
  found, or \<open>None\<close>.\<close>

definition search_main_database :: "store \<Rightarrow> int \<Rightarrow> string \<Rightarrow> (profile \<times> string) option" where
  "search_main_database st now search_term =
     (case get_profile_from_cache st now (lower search_term) of
        Some cached_data \<Rightarrow> Some (cached_data, lower search_term)
      | None \<Rightarrow>
          (case find (\<lambda>variation. get_profile_from_cache st now variation \<noteq> None)
                  (generate_username_variations search_term) of
             Some variation \<Rightarrow>
               map_option (\<lambda>cached_data. (cached_data, variation))
                 (get_profile_from_cache st now variation)
           | None \<Rightarrow>
               map_option (\<lambda>(username, profile_data). (profile_data, username))
                 (find (\<lambda>(username, profile_data). main_name_match (lower search_term) profile_data)
                    (profiles (get_database st now)))))"

definition convert_embeddings_to_main_format :: "summary \<Rightarrow> string \<Rightarrow> profile" where
  "convert_embeddings_to_main_format embeddings_data username =
     \<lparr> pr_basic_info =
         \<lparr> bi_username = username, bi_name = su_name embeddings_data,
           bi_full_name = su_name embeddings_data,
           bi_instagram_url = ''https://instagram.com/'' @ username @ ''/'',
           bi_bio = su_bio embeddings_data, bi_website = [], bi_profile_pic_url = [],
           bi_is_verified = su_verified embeddings_data, bi_is_business_account = False,
           bi_category = su_category embeddings_data,
           bi_followers_count = su_followers embeddings_data, bi_following_count = 0,
           bi_posts_count = 0 \<rparr>,
       pr_posts = \<lparr> total_posts = 0, organic_posts = [], sponsored_posts = [], all_posts = [] \<rparr>,
       pr_analysis =
         \<lparr> an_metrics = None,
           an_scores = Some
             \<lparr> s_username = [], s_postsAnalyzed = 0, avgER_organic = 0, avgER_sponsored = 0,
               s_avgLikes = 0, avg_sponsored_likes = 0, s_avgComments = 0,
               avg_sponsored_comments = 0, s_avgViews = 0,
               Authenticity = su_authenticity embeddings_data,
               BrandSafety = su_brand_safety embeddings_data,
               AudienceMatch = su_audience_match embeddings_data,
               ContentQuality = su_content_quality embeddings_data \<rparr>,
           an_engagement_rate = su_engagement_rate embeddings_data,
           avg_likes = 0, avg_comments = 0, avg_views = 0 \<rparr>,
       pr_brand_collaborations =
         \<lparr> total_sponsored_posts = 0,
           brands_worked_with = set (su_brand_collaborations embeddings_data),
           bc_sponsored_posts = [] \<rparr>,
       pr_hashtags =
         \<lparr> most_used = map (\<lambda>tag. (tag, 1)) (fromkeys (take 10 (su_top_hashtags embeddings_data))),
           total_unique = length (su_top_hashtags embeddings_data) \<rparr>,
       pr_mentions = \<lparr> most_mentioned = [], total_mentions = 0 \<rparr>,
       pr_metadata =
         \<lparr> last_scraped = Text ''From embeddings database'', scraping_source = ''embeddings'',
           analysis_version = ''1.0'', md_original_query = [] \<rparr> \<rparr>"

text \<open>The test of \<open>_search_embeddings_database\<close> on one summary.\<close>

definition embeddings_match :: "string \<Rightarrow> string \<Rightarrow> summary \<Rightarrow> bool" where
  "embeddings_match search_term username data =
     (let search_lower = lower search_term;
          username_variations = generate_username_variations search_term;
          stored_name = lower (su_name data);
          username_lower = lower username;
          search_words = split_ws search_lower;
          name_words = split_ws stored_name
      in username_lower = search_lower
         \<or> username_lower \<in> set (map lower username_variations)
         \<or> (stored_name \<noteq> []
             \<and> (search_lower = stored_name
                 \<or> sublist search_lower stored_name \<or> sublist stored_name search_lower
                 \<or> (length search_words > 1
                     \<and> list_ex (\<lambda>word. length word > 2 \<and> word \<in> set name_words) search_words))))"

definition search_embeddings_database :: "manager \<Rightarrow> matcher \<Rightarrow> string \<Rightarrow> (profile \<times> string) option" where
  "search_embeddings_database self mt search_term =
     (if \<not> embeddings_loaded self \<or> \<not> is_loaded mt then None
      else
        map_option (\<lambda>(username, data). (convert_embeddings_to_main_format data username, username))
          (find (\<lambda>(username, data). embeddings_match search_term username data)
             (influencer_data mt)))"

text \<open>The answer of \<open>find_influencer_anywhere\<close> with the store afterwards and the trace.\<close>

record find_run =
  fr_found :: bool
  fr_data :: "profile option"
  fr_source :: string
  fr_store :: store
  fr_trace :: "event list"

definition scraping_failed :: "store \<Rightarrow> event list \<Rightarrow> find_run" where
  "scraping_failed st evs =
     \<lparr> fr_found = False, fr_data = None, fr_source = ''scraping_failed'', fr_store = st,
       fr_trace = evs \<rparr>"

text \<open>The search terms of step 3: stripped, without empty ones and duplicates.\<close>

definition search_terms :: "string \<Rightarrow> norm_data \<Rightarrow> string \<Rightarrow> string list" where
  "search_terms corrected_name normalized influencer_name =
     fromkeys (map strip (filter (\<lambda>term. term \<noteq> [] \<and> strip term \<noteq> [])
       ([corrected_name, nd_search_name normalized] @ nd_aliases normalized @ nd_handles normalized
          @ [influencer_name])))"

text \<open>Step 4, the same loop in both functions: every term is tried in the main
  database and then in the embeddings database, until one is found.  The result is the
  trace of the lookups and the hit, with its source.\<close>

fun search_local ::
  "store \<Rightarrow> int \<Rightarrow> manager \<Rightarrow> matcher \<Rightarrow> string list \<Rightarrow> event list \<times> (profile \<times> string) option" where
  "search_local st now self mt [] = ([], None)"
| "search_local st now self mt (term # terms) =
     (case search_main_database st now term of
        Some (data, username) \<Rightarrow> ([Lookup_main term], Some (data, ''main_db:@'' @ username))
      | None \<Rightarrow>
          (case search_embeddings_database self mt term of
             Some (data, username) \<Rightarrow>
               ([Lookup_main term, Lookup_embeddings term], Some (data, ''embeddings:@'' @ username))
           | None \<Rightarrow>
               (let (evs, hit) = search_local st now self mt terms
                in (Lookup_main term # Lookup_embeddings term # evs, hit))))"

text \<open>Steps 6 to 8 of the auto-scraping, the same in its two forms: the profile data
  is updated, the posts are analysed and scored, and the profile is saved.  The
  suspending form runs the three analysis functions in worker threads, with the same
  results.\<close>

definition analyze_and_save ::
  "world \<Rightarrow> store \<Rightarrow> event list \<Rightarrow> profile_info \<Rightarrow> string \<Rightarrow> scraped_profile \<Rightarrow> raw_post list
    \<Rightarrow> find_run" where
  "analyze_and_save w st evs profile_data0 username sp posts_raw =
     (let profile_data = update_profile_info profile_data0 sp;
          has_posts = (posts_raw \<noteq> []);
          analyzed_posts = (if has_posts then analyze_instagram_posts posts_raw username else []);
          m = (if has_posts then aggregate_post_metrics analyzed_posts else None);
          sc = (if has_posts then calculate_scores_manually m username
                else profile_only_scores username);
          evs' = (if reaches_save profile_data then evs @ [Store_write] else evs)
      in case insert_complete_profile st (w_now w) (w_save_ok w) profile_data analyzed_posts m
                (Some sc) of
           Inl e \<Rightarrow> scraping_failed st evs
         | Inr (success, st') \<Rightarrow>
             if success then
               (case get_profile_from_cache st' (w_now w) username of
                  Some final_data \<Rightarrow>
                    \<lparr> fr_found = True, fr_data = Some final_data,
                      fr_source = ''auto_scraped:@'' @ username, fr_store = st', fr_trace = evs' \<rparr>
                | None \<Rightarrow> scraping_failed st' evs')
             else scraping_failed st' evs')"

text \<open>Steps 3 and 4 of the auto-scraping: the reply of the language model is parsed
  and the profile data formatted; \<open>None\<close> where the auto-scraping gives up.\<close>

definition selected_username :: "world \<Rightarrow> string option \<Rightarrow> string \<Rightarrow> (profile_info \<times> string) option" where
  "selected_username w selection_text original_name =
     (case selection_text of
        None \<Rightarrow> None
      | Some text \<Rightarrow>
          (let selected_profile = parse_profile_selection_response text
           in if selected_profile = empty_selection
                 \<or> sel_instagram_url selected_profile = None
                 \<or> sel_instagram_url selected_profile = Some []
              then None
              else
                let profile_data = format_profile_data selected_profile original_name (w_now w)
                in case pi_username profile_data of
                     Val username \<Rightarrow> if username = [] then None else Some (profile_data, username)
                   | Null \<Rightarrow> None
                   | Missing \<Rightarrow> None))"

definition auto_scrape_and_save_sync ::
  "world \<Rightarrow> store \<Rightarrow> event list \<Rightarrow> string \<Rightarrow> string \<Rightarrow> norm_data \<Rightarrow> find_run" where
  "auto_scrape_and_save_sync w st evs original_name corrected_name normalized_data =
     (let query = nd_search_name normalized_data;
          ev1 = evs @ [Google_search query]
      in case search_google w query of
           None \<Rightarrow> scraping_failed st ev1
         | Some organic_results \<Rightarrow>
             (let candidates =
                    snd (build_search_query_and_filter_candidates normalized_data original_name
                           organic_results)
              in if candidates = [] then scraping_failed st ev1
                 else
                   let ev3 = ev1 @ [LLM_call]
                   in case selected_username w (selector_reply w original_name (take 3 candidates))
                             original_name of
                        None \<Rightarrow> scraping_failed st ev3
                      | Some (profile_data, username) \<Rightarrow>
                          (let (scraped, posts_raw) = scrape_complete_instagram_profile w username;
                               ev5 = ev3 @ [Scrape username]
                           in case scraped of
                                None \<Rightarrow> scraping_failed st ev5
                              | Some sp \<Rightarrow>
                                  analyze_and_save w st ev5 profile_data username sp posts_raw)))"


text \<open>\<open>_find_influencer_anywhere_sync\<close> and \<open>find_influencer_anywhere_async\<close>: the
  spelling is corrected and the name normalised (steps 1 to 3), the search terms are
  looked up locally (step 4), and only then the auto-scraping starts (step 5).\<close>

definition find_influencer_anywhere_sync ::
  "world \<Rightarrow> store \<Rightarrow> manager \<Rightarrow> matcher \<Rightarrow> string \<Rightarrow> bool \<Rightarrow> find_run" where
  "find_influencer_anywhere_sync w st self0 mt0 influencer_name auto_scrape =
     (let (self, mt) = ensure_all_data_loaded w self0 mt0;
          available_influencers = get_available_influencers w st self mt;
          spelling_result =
            spell_correct_influencer_name (spelling_reply w influencer_name) influencer_name
      in if \<not> is_influencer spelling_result
         then \<lparr> fr_found = False, fr_data = None, fr_source = ''not_influencer'', fr_store = st,
                fr_trace = [LLM_call] \<rparr>
         else
           let corrected_name = sr_corrected_name spelling_result;
               normalized =
                 enhanced_influencer_normalization (normalization_reply w corrected_name)
                   corrected_name available_influencers;
               terms = search_terms corrected_name normalized influencer_name;
               (lookups, hit) = search_local st (w_now w) self mt terms;
               evs = [LLM_call, LLM_call] @ lookups
           in case hit of
                Some (data, source) \<Rightarrow>
                  \<lparr> fr_found = True, fr_data = Some data, fr_source = source, fr_store = st,
                    fr_trace = evs \<rparr>
              | None \<Rightarrow>
                  if auto_scrape \<and> auto_scraping_enabled self
                  then auto_scrape_and_save_sync w st evs influencer_name corrected_name normalized
                  else \<lparr> fr_found = False, fr_data = None, fr_source = ''not_found'',
                         fr_store = st, fr_trace = evs \<rparr>)"


text \<open>The trace of looking every term up in both local stores, and the events that
  are lookups.\<close>

definition all_lookups :: "string list \<Rightarrow> event list" where
  "all_lookups terms = concat (map (\<lambda>t. [Lookup_main t, Lookup_embeddings t]) terms)"


text \<open>The search terms that the two functions generate for a name (\<open>None\<close> when the
  spelling result says that it is no influencer), and whether a term is found in one of
  the local stores as they are after \<open>ensure_all_data_loaded\<close>.\<close>

definition terms_of :: "world \<Rightarrow> store \<Rightarrow> manager \<Rightarrow> matcher \<Rightarrow> spell_result \<Rightarrow> string \<Rightarrow> string list option" where
  "terms_of w st self0 mt0 spelling_result influencer_name =
     (let (self, mt) = ensure_all_data_loaded w self0 mt0;
          available_influencers = get_available_influencers w st self mt
      in if \<not> is_influencer spelling_result then None
         else
           let corrected_name = sr_corrected_name spelling_result;
               normalized =
                 enhanced_influencer_normalization (normalization_reply w corrected_name)
                   corrected_name available_influencers
           in Some (search_terms corrected_name normalized influencer_name))"

definition sync_terms :: "world \<Rightarrow> store \<Rightarrow> manager \<Rightarrow> matcher \<Rightarrow> string \<Rightarrow> string list option" where
  "sync_terms w st self0 mt0 influencer_name =
     terms_of w st self0 mt0
       (spell_correct_influencer_name (spelling_reply w influencer_name) influencer_name)
       influencer_name"



section \<open>The specification's formulas\<close>

text \<open>The consistency score as the specification words it: the standard deviation is
  taken over the engagement rates of all posts, and is 0 for fewer than two.\<close>

definition spec_consistency :: "post list \<Rightarrow> real" where
  "spec_consistency posts =
     (let rates = map engagement_rate posts;
          sd = (if length rates < 2 then 0 else stdev rates)
      in clamp 0 85 (100 - 10 * sd))"



text \<open>The candidate test as the specification words it: the address has a host name
  that contains the profile domain and exactly one path segment, which matches
  \<open>^[a-z0-9._]+$\<close> without regard to case; \<open>handle_of\<close> is that segment.\<close>

definition strict_profile_url :: "string \<Rightarrow> bool" where
  "strict_profile_url url =
     (case urlparse url of
        Inl e \<Rightarrow> False
      | Inr parsed \<Rightarrow>
          (case hostname parsed of None \<Rightarrow> False | Some host \<Rightarrow> sublist ''instagram.com'' host)
          \<and> (case path_segments (u_path parsed) of [seg] \<Rightarrow> handle_re seg | _ \<Rightarrow> False))"

definition handle_of :: "string \<Rightarrow> string" where
  "handle_of url =
     (case urlparse url of
        Inl e \<Rightarrow> []
      | Inr parsed \<Rightarrow> (case path_segments (u_path parsed) of [seg] \<Rightarrow> seg | _ \<Rightarrow> []))"


section \<open>Auxiliary notions for the proofs\<close>

text \<open>The key under which the filter loop remembers a candidate, and what the loop
  guarantees for each candidate it appends.\<close>

definition cand_key :: "candidate \<Rightarrow> string" where
  "cand_key c = lower (handle_of (c_url c))"

definition strict_from :: "search_item list \<Rightarrow> candidate \<Rightarrow> bool" where
  "strict_from items c =
     (\<not> c_fallback c \<and> strict_profile_url (c_url c)
      \<and> (\<exists>item\<in>set items. c_url c = clean_url (si_link item)))"

section \<open>Example inputs\<close>

definition mk_post :: "int \<Rightarrow> int \<Rightarrow> int \<Rightarrow> post" where
  "mk_post l c v =
     \<lparr> p_username = ''creator'', ownerUsername = ''creator'', postId = ''1'',
       postType = ''Image'', postUrl = [], timestamp = None, topic = ''No caption'',
       likesCount = l, commentsCount = c, videoViewCount = v, videoPlayCount = 0,
       topComment = \<lparr> tc_text = ''No comments found'', tc_likes = 0 \<rparr>, isAd = False,
       mentions = [], hashtags = [] \<rparr>"


definition example_info :: profile_info where
  "example_info =
     \<lparr> pi_input = ''foo bar'', pi_name = ''Foo Bar'', pi_username = Val ''Foo'',
       pi_instagram_url = ''https://instagram.com/Foo/'', pi_confidence = 0.9, pi_reason = [],
       pi_timestamp = 0, pi_full_name = ''Foo Bar'', pi_bio = ''hello'', pi_website = [],
       pi_profile_pic_url = [], pi_is_verified = True, pi_is_business_account = False,
       pi_category = ''Creator'', pi_followers_count = 1000, pi_following_count = 10,
       pi_posts_count = 2 \<rparr>"

definition example_posts :: "post list" where
  "example_posts = [mk_post 1 1 1, mk_post 0 0 0, mk_post 1 3 0, mk_post 5 1 1]"

definition example_profile :: profile where
  "example_profile =
     build_profile example_info ''Foo'' example_posts (aggregate_post_metrics example_posts)
       (Some (calculate_scores_manually (aggregate_post_metrics example_posts) ''foo'')) 1000000"

definition example_store :: store where
  "example_store =
     Some \<lparr> profiles = [(''foo'', example_profile)],
            db_metadata = \<lparr> last_updated = 1000000, total_profiles = Some 1 \<rparr> \<rparr>"

definition example_reply :: string where
  "example_reply =
     ''Is Influencer: No'' @ [CHR 0x0A] @ ''Corrected Name: John Smith'' @ [CHR 0x0A]
       @ ''Confidence: 0.9''"

definition mk_item :: "string \<Rightarrow> search_item" where
  "mk_item l = \<lparr> si_link = l, si_title = ''Instagram'', si_snippet = ''photos and videos'' \<rparr>"

definition example_norm :: norm_data where
  "example_norm =
     \<lparr> nd_search_name = ''Foo Bar'', nd_aliases = [''foo bar'', ''Foo Bar''],
       nd_handles = [''foobar'', ''foo_bar''], nd_database_match = False \<rparr>"

definition empty_matcher :: matcher where
  "empty_matcher =
     \<lparr> influencer_data = [], is_loaded = False, faiss_index = None, username_list = [],
       embedding_dim = 384 \<rparr>"

definition example_embeddings :: ndarray where
  "example_embeddings = \<lparr> shape = [2, 2], entries = [1, 0, 0, 1] \<rparr>"

definition example_summary :: summary where
  "example_summary =
     \<lparr> su_username = ''bar_baz'', su_name = ''Bar Baz'', su_category = ''Comedy'',
       su_bio = ''jokes'', su_top_hashtags = [''fun'', ''fun'', ''lol''], su_followers = 5000,
       su_engagement_rate = 0.05, su_verified = False, su_brand_collaborations = [],
       su_content_quality = 80, su_authenticity = 75, su_brand_safety = 85,
       su_audience_match = 70 \<rparr>"

definition example_world :: world where
  "example_world =
     \<lparr> normalizer_reply = (\<lambda>q. None),
       spelling_reply = (\<lambda>q. Reply None),
       normalization_reply = (\<lambda>q. Reply None),
       search_google = (\<lambda>q. Some [mk_item ''https://www.instagram.com/Foo/?hl=en'']),
       selector_reply = (\<lambda>q cs. None),
       scoring_reply = (\<lambda>u m. None),
       scrape_complete_instagram_profile = (\<lambda>u. (None, [])),
       w_save_ok = True,
       w_now = 1000000 + timedelta_days 1,
       embeddings_file = Some [(''bar_baz'', example_summary)],
       index_files = None,
       session_ok = True,
       spelling_reply_async = (\<lambda>q. Reply None),
       search_google_async = (\<lambda>q. Some [mk_item ''https://www.instagram.com/Foo/?hl=en'']),
       selector_reply_async = (\<lambda>q cs. Reply None),
       scrape_complete_instagram_profile_async = (\<lambda>u. (None, [])) \<rparr>"

definition example_selected :: profile_info where
  "example_selected =
     \<lparr> pi_input = ''foo'', pi_name = ''foo'', pi_username = Val ''Foo'',
       pi_instagram_url = ''https://www.instagram.com/Foo/'', pi_confidence = 0.5,
       pi_reason = [], pi_timestamp = 1000000 + timedelta_days 1, pi_full_name = [], pi_bio = [],
       pi_website = [], pi_profile_pic_url = [], pi_is_verified = False,
       pi_is_business_account = False, pi_category = [], pi_followers_count = 0,
       pi_following_count = 0, pi_posts_count = 0 \<rparr>"






section \<open>Properties\<close>

subsection \<open>Score calculator\<close>


lemma calculate_scores_manually_empty:
  "Authenticity (calculate_scores_manually None u) = 75"
  "BrandSafety (calculate_scores_manually None u) = 85"
  "AudienceMatch (calculate_scores_manually None u) = 70"
  "ContentQuality (calculate_scores_manually None u) = 60"
  by (simp_all add: calculate_scores_manually_def mget_def Let_def py_round_def round_half_even_def)




subsection \<open>Metrics aggregator\<close>

lemma engagement_rate_examples:
  "engagement_rate (mk_post 0 0 0) = 0"
  "engagement_rate (mk_post 1 3 0) = 4"
  "engagement_rate (mk_post 1 1 1) = 2"
  "engagement_rate (mk_post 5 1 1) = 6"
  by (simp_all add: engagement_rate_def mk_post_def views_of_def)

text \<open>
  C7, as the specification states it, fails: the standard deviation is taken over the
  strictly positive engagement rates only.  For one post without likes and comments
  (rate 0) and one post with rate 4 a single rate is left, the deviation counts as 0 and
  the score is 85, while the deviation of the two rates 0 and 4 gives a score below 85.
\<close>

theorem C7_stdev_all_rates_counterexample:
  "map_option consistencyScore (aggregate_post_metrics [mk_post 0 0 0, mk_post 1 3 0]) = Some 85
   \<and> spec_consistency [mk_post 0 0 0, mk_post 1 3 0] < 85"
proof -
  have "(3/2)\<^sup>2 < (8::real)"
    by (simp add: power2_eq_square)
  then have "3/2 < sqrt 8"
    by (rule real_less_rsqrt)
  then have "spec_consistency [mk_post 0 0 0, mk_post 1 3 0] < 85"
    by (simp add: spec_consistency_def Let_def engagement_rate_examples stdev_def mean_def clamp_def)
  moreover have
    "map_option consistencyScore (aggregate_post_metrics [mk_post 0 0 0, mk_post 1 3 0]) = Some 85"
    by (simp add: aggregate_post_metrics_def Let_def positive_ers_def analyze_one_def
        engagement_rate_examples)
  ultimately show ?thesis by simp
qed

text \<open>
  C7, amended: for every non-empty post list, \<open>aggregate_post_metrics\<close> assigns each post
  the engagement rate (likes + comments) / views when views > 0 and
  (likes + comments) / max(likes, 1) otherwise, and sets consistencyScore =
  clamp(100 - 10 * stdev, 0, 85), where stdev is the standard deviation of the strictly
  positive engagement rates of the posts, taken as 0 when fewer than two rates are positive.
\<close>

theorem C7_consistency_of_positive_rates:
  assumes "posts \<noteq> []"
  shows "a_er (analyze_one p) =
           (if views_of p > 0
            then real_of_int (likesCount p + commentsCount p) / real_of_int (views_of p)
            else real_of_int (likesCount p + commentsCount p) / real_of_int (max (likesCount p) 1))
     \<and> (\<exists>m. aggregate_post_metrics posts = Some m \<and>
          consistencyScore m =
            clamp 0 85 (100 - 10 * (let ers = filter (\<lambda>r. r > 0) (map engagement_rate posts)
                                    in if length ers < 2 then 0 else stdev ers)))"
proof
  show "a_er (analyze_one p) =
           (if views_of p > 0
            then real_of_int (likesCount p + commentsCount p) / real_of_int (views_of p)
            else real_of_int (likesCount p + commentsCount p) / real_of_int (max (likesCount p) 1))"
    by (simp add: analyze_one_def engagement_rate_def Let_def)
  show "\<exists>m. aggregate_post_metrics posts = Some m \<and>
          consistencyScore m =
            clamp 0 85 (100 - 10 * (let ers = filter (\<lambda>r. r > 0) (map engagement_rate posts)
                                    in if length ers < 2 then 0 else stdev ers))"
    using assms
    by (simp add: aggregate_post_metrics_def Let_def clamp_def positive_ers_def analyze_one_def
        filter_map comp_def not_less Suc_le_eq less_Suc_eq_le mult.commute)
qed

theorem C7_consistency_of_positive_rates_witness:
  "[mk_post 1 1 1, mk_post 0 0 0, mk_post 1 3 0, mk_post 5 1 1] \<noteq> []
   \<and> a_er (analyze_one (mk_post 5 1 1)) = 6
   \<and> map_option consistencyScore
        (aggregate_post_metrics [mk_post 1 1 1, mk_post 0 0 0, mk_post 1 3 0, mk_post 5 1 1])
       = Some 80"
  using C7_consistency_of_positive_rates
          [of "[mk_post 1 1 1, mk_post 0 0 0, mk_post 1 3 0, mk_post 5 1 1]" "mk_post 5 1 1"]
  by (auto simp add: Let_def engagement_rate_examples stdev_def mean_def clamp_def analyze_one_def)

subsection \<open>Profile store\<close>

lemma example_profile_last_scraped: "last_scraped (pr_metadata example_profile) = Iso 1000000"
  by (simp add: example_profile_def build_profile_def Let_def)

lemma example_store_lookup:
  "map_of (profiles (get_database example_store now)) (lower ''Foo'') = Some example_profile"
proof -
  have "lower ''Foo'' = ''foo''" by code_simp
  then show ?thesis by (simp add: example_store_def get_database_def)
qed

text \<open>
  C2: \<open>check_profile_exists\<close> classifies a stored profile by the age of its
  \<open>last_scraped\<close> timestamp: when the age is more than 7 days the profile is stale (the
  flag is False and the record is still returned), when the age is less than 7 days it is
  fresh (the flag is True, with the record).  The instance after the theorem takes the
  ages 7 days + 1 second and 6 days 23 hours 59 minutes 59 seconds.
\<close>

theorem C2_staleness_by_age:
  assumes "map_of (profiles (get_database st now)) (lower username) = Some p"
    and "last_scraped (pr_metadata p) = Iso t"
  shows "(timedelta_days 7 < now - t \<longrightarrow> check_profile_exists st now username = (False, Some p))
       \<and> (now - t < timedelta_days 7 \<longrightarrow> check_profile_exists st now username = (True, Some p))"
  using assms by (simp add: check_profile_exists_def Let_def)

theorem C2_staleness_by_age_witness:
  "check_profile_exists example_store (1000000 + timedelta_days 7 + timedelta_seconds 1) ''Foo''
     = (False, Some example_profile)
   \<and> check_profile_exists example_store
       (1000000 + timedelta_days 6 + timedelta_seconds (23 * 3600 + 59 * 60 + 59)) ''Foo''
     = (True, Some example_profile)"
  using
    C2_staleness_by_age [OF example_store_lookup example_profile_last_scraped,
      of "1000000 + timedelta_days 7 + timedelta_seconds 1"]
    C2_staleness_by_age [OF example_store_lookup example_profile_last_scraped,
      of "1000000 + timedelta_days 6 + timedelta_seconds (23 * 3600 + 59 * 60 + 59)"]
  by (simp add: timedelta_days_def timedelta_seconds_def)

lemma check_profile_exists_boundary:
  assumes "map_of (profiles (get_database st now)) (lower username) = Some p"
    and "last_scraped (pr_metadata p) = Iso t"
    and "now - t = timedelta_days 7"
  shows "check_profile_exists st now username = (False, Some p)"
  using assms by (simp add: check_profile_exists_def Let_def)

text \<open>
  C10: when the \<open>profile_info\<close> handed to \<open>insert_complete_profile\<close> has no username
  or an empty one, the function returns False and the persisted store is unchanged.
\<close>

theorem C10_insert_without_username:
  assumes "pi_username profile_info = Missing \<or> pi_username profile_info = Val []"
  shows "insert_complete_profile st now save_ok profile_info posts_data metrics_data scores_data
           = Inr (False, st)"
  using assms by (auto simp add: insert_complete_profile_def lower_def)

theorem C10_insert_without_username_witness:
  "insert_complete_profile example_store 2000000 True (example_info\<lparr> pi_username := Missing \<rparr>)
       example_posts None None = Inr (False, example_store)
   \<and> insert_complete_profile example_store 2000000 True (example_info\<lparr> pi_username := Val [] \<rparr>)
       example_posts None None = Inr (False, example_store)"
  using
    C10_insert_without_username
      [of "example_info\<lparr> pi_username := Missing \<rparr>" example_store 2000000 True example_posts None None]
    C10_insert_without_username
      [of "example_info\<lparr> pi_username := Val [] \<rparr>" example_store 2000000 True example_posts None None]
  by simp

lemma insert_complete_profile_writes:
  assumes "pi_username profile_info = Val u" and "u \<noteq> []"
  shows "\<exists>db. insert_complete_profile st now True profile_info posts_data metrics_data scores_data
            = Inr (True, Some db)
          \<and> map_of (profiles db) (lower u)
            = Some (build_profile profile_info u posts_data metrics_data scores_data now)"
  using assms
  by (simp add: insert_complete_profile_def lower_def save_database_def Let_def update_conv')

subsection \<open>Strings\<close>


lemma of_char_lower_char:
  "is_upper c \<Longrightarrow> (of_char (lower_char c) :: nat) = of_char c + 32"
  by (simp add: lower_char_def is_upper_def)

lemma is_space_lower_char [simp]: "is_space (lower_char c) = is_space c"
proof (cases "is_upper c")
  case True
  then show ?thesis
    using of_char_lower_char [OF True] by (auto simp add: is_space_def is_upper_def Let_def)
next
  case False
  then show ?thesis by (simp add: lower_char_def)
qed

lemma is_alpha_lower_char [simp]: "is_alpha (lower_char c) = is_alpha c"
proof (cases "is_upper c")
  case True
  then show ?thesis
    using of_char_lower_char [OF True] by (auto simp add: is_alpha_def is_upper_def is_lower_def)
next
  case False
  then show ?thesis by (simp add: lower_char_def)
qed

lemma length_lower [simp]: "length (lower s) = length s"
  by (simp add: lower_def)

lemma isalpha_lower [simp]: "isalpha (lower s) = isalpha s"
  by (simp add: isalpha_def lower_def list_all_iff)




















subsection \<open>Name heuristic\<close>





subsection \<open>Spelling correction\<close>

text \<open>
  C3: whenever the language model has answered, the parsed answer says
  \<open>is_influencer = False\<close> and \<open>_looks_like_name(query)\<close> is true, both
  \<open>spell_correct_influencer_name\<close> and \<open>spell_correct_influencer_name_async\<close> return a
  result with \<open>is_influencer = True\<close> and confidence exactly 0.75.
\<close>

theorem C3_heuristic_override:
  assumes "response \<noteq> []"
    and "\<not> is_influencer (parse_spelling_correction_response response query)"
    and "looks_like_name query"
  shows "is_influencer (spell_correct_influencer_name (Reply (Some response)) query)
       \<and> confidence (spell_correct_influencer_name (Reply (Some response)) query) = 0.75
       \<and> is_influencer (spell_correct_influencer_name_async True (Reply (Some response)) query)
       \<and> confidence (spell_correct_influencer_name_async True (Reply (Some response)) query) = 0.75"
  using assms
  by (simp add: spell_correct_influencer_name_def spell_correct_influencer_name_async_def
      safety_check_def)

lemma example_reply_parsed:
  "example_reply \<noteq> []
   \<and> \<not> is_influencer (parse_spelling_correction_response example_reply ''john smith'')
   \<and> confidence (parse_spelling_correction_response example_reply ''john smith'') = 0.9
   \<and> looks_like_name ''john smith''"
  by code_simp

theorem C3_heuristic_override_witness:
  "is_influencer (spell_correct_influencer_name (Reply (Some example_reply)) ''john smith'')
   \<and> confidence (spell_correct_influencer_name (Reply (Some example_reply)) ''john smith'') = 0.75
   \<and> is_influencer (spell_correct_influencer_name_async True (Reply (Some example_reply)) ''john smith'')
   \<and> confidence (spell_correct_influencer_name_async True (Reply (Some example_reply)) ''john smith'')
       = 0.75"
  using C3_heuristic_override [of example_reply "''john smith''"] example_reply_parsed
  by blast

subsection \<open>Candidate filter\<close>

lemma url_user_strict:
  assumes "url_user url = Some user"
  shows "strict_profile_url url \<and> handle_of url = user \<and> url \<noteq> []"
proof -
  from assms obtain parsed host where p: "urlparse url = Inr parsed"
    and h: "hostname parsed = Some host" "sublist ''instagram.com'' host"
    and s: "length (path_segments (u_path parsed)) = 1"
    and u: "user = hd (path_segments (u_path parsed))" "handle_re user" and ne: "url \<noteq> []"
    by (auto simp add: url_user_def Let_def split: if_splits sum.splits option.splits)
  from s u(1) have "path_segments (u_path parsed) = [user]"
    by (cases "path_segments (u_path parsed)") auto
  then show ?thesis
    using p h u(2) ne by (simp add: strict_profile_url_def handle_of_def)
qed

lemma filter_loop_invariant:
  assumes "\<forall>c\<in>set candidates. strict_from all_items c"
    and "distinct (map cand_key candidates)"
    and "set (map cand_key candidates) \<subseteq> set seen"
    and "set items \<subseteq> set all_items"
  shows "(\<forall>c\<in>set (filter_loop seen candidates items). strict_from all_items c)
       \<and> distinct (map cand_key (filter_loop seen candidates items))"
  using assms
proof (induction items arbitrary: seen candidates)
  case Nil
  then show ?case by simp
next
  case (Cons item items)
  define url where "url = clean_url (si_link item)"
  show ?case
  proof (cases "url_user url")
    case None
    then show ?thesis
      using Cons.IH [of candidates seen] Cons.prems by (simp add: url_def)
  next
    case (Some user)
    note strict = url_user_strict [OF Some]
    show ?thesis
    proof (cases "lower user \<in> set seen")
      case True
      then show ?thesis
        using Cons.IH [of candidates seen] Cons.prems Some by (simp add: url_def)
    next
      case False
      define c where "c = \<lparr> c_title = si_title item, c_url = url, c_snippet = si_snippet item,
                             c_fallback = False \<rparr>"
      have key: "cand_key c = lower user"
        using strict by (simp add: cand_key_def c_def)
      have "strict_from all_items c"
        using strict Cons.prems(4) by (auto simp add: strict_from_def c_def url_def)
      then have 1: "\<forall>c'\<in>set (candidates @ [c]). strict_from all_items c'"
        using Cons.prems(1) by auto
      have 2: "distinct (map cand_key (candidates @ [c]))"
        using Cons.prems(2,3) False key by auto
      have 3: "set (map cand_key (candidates @ [c])) \<subseteq> set (lower user # seen)"
        using Cons.prems(3) key by auto
      have 4: "set items \<subseteq> set all_items"
        using Cons.prems(4) by simp
      have "filter_loop seen candidates (item # items)
              = filter_loop (lower user # seen) (candidates @ [c]) items"
        using Some False by (simp add: url_def c_def)
      then show ?thesis
        using Cons.IH [OF 1 2 3 4] by simp
    qed
  qed
qed

text \<open>
  C5, as the specification states it, fails: when no search hit passes the test and
  there are hits, the first hit whose link contains ``instagram.com/'' is returned as a
  candidate, flagged \<open>fallback\<close>, whatever its path.  A single hit that points at a post
  (two path segments) is returned as such a candidate.
\<close>

theorem C5_fallback_counterexample:
  "snd (build_search_query_and_filter_candidates example_norm ''foo bar''
      [mk_item ''https://www.instagram.com/p/Cabc123/''])
   = [\<lparr> c_title = ''Instagram'', c_url = ''https://www.instagram.com/p/Cabc123'',
        c_snippet = ''photos and videos'', c_fallback = True \<rparr>]
   \<and> \<not> strict_profile_url ''https://www.instagram.com/p/Cabc123''"
  by code_simp

text \<open>
  C5, amended: every candidate that \<open>build_search_query_and_filter_candidates\<close> returns
  without the \<open>fallback\<close> flag is a search hit whose address, after stripping the query
  parameters and a trailing slash, has a host name containing the profile domain and
  exactly one path segment matching \<open>^[a-z0-9._]+$\<close> without regard to case; a candidate
  flagged \<open>fallback\<close> is the only candidate returned; and the candidates are pairwise
  different in their lower-case handles.  In particular, two hits pointing at
  \<open>instagram.com/foo/?hl=en\<close> and \<open>instagram.com/foo\<close> produce exactly one candidate, with
  handle \<open>foo\<close>.
\<close>

theorem C5_candidates:
  "(\<forall>c\<in>set (snd (build_search_query_and_filter_candidates norm_data fallback_query organic)).
      if c_fallback c
      then snd (build_search_query_and_filter_candidates norm_data fallback_query organic) = [c]
      else strict_profile_url (c_url c)
           \<and> (\<exists>item\<in>set organic. c_url c = clean_url (si_link item)))
   \<and> distinct (map (\<lambda>c. lower (handle_of (c_url c)))
        (snd (build_search_query_and_filter_candidates norm_data fallback_query organic)))"
proof -
  have inv: "(\<forall>c\<in>set (filter_loop [] [] organic). strict_from organic c)
       \<and> distinct (map cand_key (filter_loop [] [] organic))"
    by (rule filter_loop_invariant) simp_all
  show ?thesis
  proof (cases "filter_loop [] [] organic = [] \<and> organic \<noteq> []")
    case True
    then show ?thesis
      by (auto simp add: build_search_query_and_filter_candidates_def Let_def split: option.splits)
  next
    case False
    then have "snd (build_search_query_and_filter_candidates norm_data fallback_query organic)
      = filter_loop [] [] organic"
      by (auto simp add: build_search_query_and_filter_candidates_def Let_def)
    moreover have "cand_key = (\<lambda>c. lower (handle_of (c_url c)))"
      by (rule ext) (simp add: cand_key_def)
    ultimately show ?thesis
      using inv by (auto simp add: strict_from_def)
  qed
qed

lemma two_hits_one_candidate:
  "snd (build_search_query_and_filter_candidates example_norm ''foo bar''
      [mk_item ''https://www.instagram.com/foo/?hl=en'', mk_item ''https://www.instagram.com/foo''])
   = [\<lparr> c_title = ''Instagram'', c_url = ''https://www.instagram.com/foo'',
        c_snippet = ''photos and videos'', c_fallback = False \<rparr>]"
  "handle_of ''https://www.instagram.com/foo'' = ''foo''"
  by code_simp+

lemma two_hits_without_scheme:
  "snd (build_search_query_and_filter_candidates example_norm ''foo bar''
      [mk_item ''instagram.com/foo/?hl=en'', mk_item ''instagram.com/foo''])
   = [\<lparr> c_title = ''Instagram'', c_url = ''instagram.com/foo'',
        c_snippet = ''photos and videos'', c_fallback = True \<rparr>]"
  by code_simp

theorem C5_candidates_witness:
  "snd (build_search_query_and_filter_candidates example_norm ''foo bar''
      [mk_item ''https://www.instagram.com/foo/?hl=en'', mk_item ''https://www.instagram.com/foo''])
   = [\<lparr> c_title = ''Instagram'', c_url = ''https://www.instagram.com/foo'',
        c_snippet = ''photos and videos'', c_fallback = False \<rparr>]
   \<and> strict_profile_url ''https://www.instagram.com/foo''
   \<and> handle_of ''https://www.instagram.com/foo'' = ''foo''"
  using C5_candidates [of example_norm "''foo bar''"
      "[mk_item ''https://www.instagram.com/foo/?hl=en'', mk_item ''https://www.instagram.com/foo'']"]
    two_hits_one_candidate
  by simp

subsection \<open>Vector index\<close>

lemma collect_hits_within:
  assumes "\<forall>(s, i)\<in>set hits. - 1 \<le> i"
  shows "collect_hits names hits
           = Inr (map (\<lambda>(s, i). (names ! nat i, s))
                    (filter (\<lambda>(s, i). 0 \<le> i \<and> i < int (length names)) hits))"
  using assms
proof (induction hits)
  case Nil
  then show ?case by simp
next
  case (Cons h hits)
  obtain s i where h: "h = (s, i)" by (cases h)
  with Cons.prems have i: "- 1 \<le> i" by simp
  from Cons have IH: "collect_hits names hits
           = Inr (map (\<lambda>(s, i). (names ! nat i, s))
                    (filter (\<lambda>(s, i). 0 \<le> i \<and> i < int (length names)) hits))"
    by simp
  show ?case
    using i by (auto simp add: h IH bind_err_def Let_def)
qed

lemma faiss_search_positions: "\<forall>(s, i)\<in>set (faiss_search ix q top_k). - 1 \<le> i"
proof -
  define scored where
    "scored = map (\<lambda>(i, v). (inner_product q v, int i)) (enumerate 0 (ix_vectors ix))"
  have "\<forall>(s, i)\<in>set scored. 0 \<le> i"
    by (auto simp add: scored_def)
  moreover have "set (take top_k (sort_key (\<lambda>(s, i). - s) scored)) \<subseteq> set scored"
    using set_take_subset [of top_k "sort_key (\<lambda>(s, i). - s) scored"] by simp
  ultimately have "\<forall>(s, i)\<in>set (take top_k (sort_key (\<lambda>(s, i). - s) scored)). 0 \<le> i"
    by blast
  then show ?thesis
    by (auto simp add: faiss_search_def Let_def scored_def [symmetric])
qed

lemma search_by_text_within_keys:
  "\<exists>results. search_by_text self q_vec top_k = Inr results
     \<and> fst ` set results \<subseteq> set (username_list self)"
proof (cases "faiss_index self")
  case None
  then show ?thesis by (simp add: search_by_text_def)
next
  case (Some ix)
  show ?thesis
  proof (cases "username_list self = []")
    case True
    then show ?thesis using Some by (simp add: search_by_text_def)
  next
    case False
    have "search_by_text self q_vec top_k = collect_hits (username_list self) (faiss_search ix q_vec top_k)"
      using Some False by (simp add: search_by_text_def)
    then show ?thesis
      using collect_hits_within [OF faiss_search_positions, of "username_list self" ix q_vec top_k]
      by (auto simp add: image_iff)
  qed
qed
lemma collect_hits_example:
  "collect_hits [''alice'', ''bob''] [(0.9, 1), (0, - 1), (0.4, 7), (0.2, 0)]
     = Inr [(''bob'', 0.9), (''alice'', 0.2)]"
  by (simp add: bind_err_def)

lemma build_faiss_index_raises:
  assumes "length (shape embeddings) = 2"
  shows "build_faiss_index assertions self embeddings usernames
           = Inl (if assertions then TypeError else IndexError)"
  using assms
  by (simp add: build_faiss_index_def py_assert_def bind_err_def shape_tuple_def Let_def)

lemma build_faiss_index_never_succeeds:
  "\<exists>e. build_faiss_index assertions self embeddings usernames = Inl e"
proof (cases "length (shape embeddings) = 2")
  case True
  then show ?thesis by (simp add: build_faiss_index_raises)
next
  case False
  show ?thesis
  proof (cases assertions)
    case True
    then show ?thesis
      using False by (simp add: build_faiss_index_def py_assert_def bind_err_def)
  next
    case no_assertions: False
    have "index_add ix embeddings rows = Inl ValueError" for ix rows
      using False by (cases "shape embeddings" rule: list.exhaust)
        (auto simp add: index_add_def split: list.splits)
    then show ?thesis
      using no_assertions
      by (auto simp add: build_faiss_index_def py_assert_def bind_err_def Let_def
          split: sum.splits pyval.splits)
  qed
qed

text \<open>
  C8: after a successful rebuild by \<open>build_faiss_index\<close> on an N-row matrix with N user
  names the key array and the index should have equal length.  The code never gets
  there: on the 2 x 2 matrix below with two user names the sanity check
  \<open>embeddings.shape > 0\<close> compares a tuple with an integer and raises \<open>TypeError\<close>; with
  assertions switched off, \<open>embeddings.shape[18]\<close> raises \<open>IndexError\<close>.  The matcher is
  left without an index in both cases.
\<close>

theorem C8_build_raises:
  "build_faiss_index True empty_matcher example_embeddings [''alice'', ''bob''] = Inl TypeError
   \<and> build_faiss_index False empty_matcher example_embeddings [''alice'', ''bob''] = Inl IndexError"
  by (simp add: build_faiss_index_def py_assert_def bind_err_def shape_tuple_def Let_def
      example_embeddings_def)

subsection \<open>Workflow\<close>

lemma select_profile_trace:
  "select_profile w chat_message = (evs, r) \<Longrightarrow> \<not> list_ex scrape_event evs \<and> Store_write \<notin> set evs"
  by (auto simp add: select_profile_def Let_def split: option.splits if_splits field.splits)

text \<open>
  C1: when the store holds a record for the selected user name (in lower case) whose
  \<open>last_scraped\<close> is less than 7 days old, \<open>run_workflow\<close> returns exactly that record,
  leaves the store as it is, and its trace ends with the selection of the profile: it
  holds no scrape call and no write of the store.
\<close>

theorem C1_cache_hit:
  assumes "strip chat_message \<noteq> []"
    and "select_profile w chat_message = (evs, Some profile_data)"
    and "pi_username profile_data = Val username"
    and "map_of (profiles (get_database st (w_now w))) (lower username) = Some cached"
    and "last_scraped (pr_metadata cached) = Iso t"
    and "w_now w - t < timedelta_days 7"
  shows "run_workflow w st chat_message
           = \<lparr> returned = Some cached, store_after = st, trace = evs \<rparr>
       \<and> \<not> list_ex scrape_event (trace (run_workflow w st chat_message))
       \<and> Store_write \<notin> set (trace (run_workflow w st chat_message))"
proof -
  have "check_profile_exists st (w_now w) username = (True, Some cached)"
    using assms(4,5,6) by (simp add: check_profile_exists_def Let_def)
  moreover have "chat_message \<noteq> []"
    using assms(1) by (auto simp add: strip_def rstrip_def lstrip_def)
  ultimately have "run_workflow w st chat_message
           = \<lparr> returned = Some cached, store_after = st, trace = evs \<rparr>"
    using assms(1,2,3) by (simp add: run_workflow_def)
  then show ?thesis
    using select_profile_trace [OF assms(2)] by simp
qed

lemma example_selection:
  "select_profile example_world ''foo''
     = ([LLM_call, Google_search ''foo'', LLM_call], Some example_selected)"
  by code_simp

lemma example_world_now: "w_now example_world = 1000000 + timedelta_days 1"
  by (simp add: example_world_def)

theorem C1_cache_hit_witness:
  "run_workflow example_world example_store ''foo''
     = \<lparr> returned = Some example_profile, store_after = example_store,
         trace = [LLM_call, Google_search ''foo'', LLM_call] \<rparr>"
proof -
  have 1: "strip ''foo'' \<noteq> []" by code_simp
  have 3: "pi_username example_selected = Val ''Foo''"
    by (simp add: example_selected_def)
  have 6: "w_now example_world - 1000000 < timedelta_days 7"
    by (simp add: example_world_now timedelta_days_def)
  show ?thesis
    using C1_cache_hit [OF 1 example_selection 3 example_store_lookup example_profile_last_scraped 6]
    by simp
qed

lemma run_workflow_stale_scrapes:
  assumes "strip chat_message \<noteq> []"
    and "select_profile w chat_message = (evs, Some profile_data)"
    and "pi_username profile_data = Val username"
    and "map_of (profiles (get_database st (w_now w))) (lower username) = Some cached"
    and "last_scraped (pr_metadata cached) = Iso t"
    and "timedelta_days 7 \<le> w_now w - t"
  shows "run_workflow w st chat_message = scrape_and_save w st evs profile_data username"
proof -
  have "check_profile_exists st (w_now w) username = (False, Some cached)"
    using assms(4,5,6) by (simp add: check_profile_exists_def Let_def)
  moreover have "chat_message \<noteq> []"
    using assms(1) by (auto simp add: strip_def rstrip_def lstrip_def)
  ultimately show ?thesis
    using assms(1,2,3) by (simp add: run_workflow_def)
qed

lemma scrape_and_save_scrapes:
  "Scrape username \<in> set (trace (scrape_and_save w st evs profile_data username))"
  by (auto simp add: scrape_and_save_def Let_def give_up_def
      split: prod.splits sum.splits option.splits if_splits)

subsection \<open>Local lookups before auto-scraping\<close>

text \<open>Loading the data twice gives what loading it once gives, so the stores that
  the lookups read are those after the first \<open>ensure_all_data_loaded\<close>.\<close>

lemma ensure_all_data_loaded_idem:
  assumes "ensure_all_data_loaded w self0 mt0 = (self, mt)"
  shows "ensure_all_data_loaded w self mt = (self, mt)"
  using assms
  by (auto simp add: ensure_all_data_loaded_def load_precomputed_embeddings_def Let_def
      split: if_splits option.splits prod.splits)



lemma all_lookups_no_remote: "\<not> list_ex remote_event (all_lookups terms)"
  by (induction terms) (simp_all add: all_lookups_def)








lemma not_influencer_no_lookups:
  assumes "sync_terms w st self0 mt0 influencer_name = None"
  shows "fr_trace (find_influencer_anywhere_sync w st self0 mt0 influencer_name auto_scrape)
           = [LLM_call]"
  using assms
  by (auto simp add: sync_terms_def terms_of_def find_influencer_anywhere_sync_def Let_def
      split: prod.splits if_splits)





end
